theory Spec2Isabelle
  imports Main
begin

text \<open>
  The admin service of the event-management platform: onboarding behind an invitation
  code, login, and profile update (services/adminOnboardingService.js), the validation
  middleware and the controller of the update route, and token verification (utils/jwt.js).
  Every service function takes the world it runs in and returns its result, an
  \<^verbatim>\<open>APIError\<close> or a value, together with the world it leaves behind. Requests run one
  at a time and the store can always be reached.
\<close>

section \<open>Values, result rows and API errors\<close>

text \<open>
  JavaScript values as the service handles them: request fields, query parameters and the
  columns of the rows that the PostgreSQL driver hands back. A timestamp column arrives as
  a Date object, modelled by its time in milliseconds.
\<close>

datatype val = JUndefined | JNull | JBool bool | JNum int | JStr string | JDate nat

text \<open>Truthiness, as \<^verbatim>\<open>if (x)\<close>, \<^verbatim>\<open>!x\<close> and \<^verbatim>\<open>x || y\<close> read a value.\<close>

fun truthy :: "val \<Rightarrow> bool" where
  "truthy JUndefined = False"
| "truthy JNull = False"
| "truthy (JBool b) = b"
| "truthy (JNum n) = (n \<noteq> 0)"
| "truthy (JStr s) = (s \<noteq> [])"
| "truthy (JDate t) = True"

text \<open>
  A row is an object keyed by column name. \<open>col\<close> reads a column; a column that holds
  nothing is SQL NULL.
\<close>

type_synonym row = "(string \<times> val) list"

definition col :: "row \<Rightarrow> string \<Rightarrow> val" where
  "col r c = (case map_of r c of Some v \<Rightarrow> v | None \<Rightarrow> JNull)"

text \<open>The column list of a SELECT or RETURNING clause.\<close>

definition select :: "string list \<Rightarrow> row \<Rightarrow> row" where
  "select cs r = map (\<lambda>c. (c, col r c)) cs"

text \<open>\<^verbatim>\<open>SET "c" = v\<close> on one row.\<close>

fun setcol :: "string \<Rightarrow> val \<Rightarrow> row \<Rightarrow> row" where
  "setcol c v [] = [(c, v)]"
| "setcol c v ((k, x) # r) = (if k = c then (c, v) # r else (k, x) # setcol c v r)"

text \<open>
  SQL equality in a WHERE or ON clause: NULL (and an undefined parameter, which the driver
  sends as NULL) equals nothing. Values of different JavaScript types are taken to differ:
  the store's conversion of a parameter to the type of the column is not modelled.
\<close>

definition sql_eq :: "val \<Rightarrow> val \<Rightarrow> bool" where
  "sql_eq a b = (a \<noteq> JNull \<and> a \<noteq> JUndefined \<and> a = b)"

text \<open>
  \<^verbatim>\<open>ERROR_CODES\<close> of constants/errorCodes.js, and the literal code
  \<^verbatim>\<open>'NOT_FOUND'\<close> that the route-not-found handler uses.
\<close>

datatype error_code =
    INVALID_INPUT | MISSING_FIELD | INVALID_EMAIL | INVALID_PASSWORD
  | INVALID_GRADUATION_YEAR | INVALID_PHONE
  | UNAUTHORIZED | FORBIDDEN
  | DUPLICATE_STUDENT_ID | DUPLICATE_EMAIL | INVALID_ROLE | INVALID_BRANCH
  | INVALID_INVITATION_CODE | INVITATION_CODE_INACTIVE | INVITATION_CODE_EXPIRED
  | INVITATION_CODE_ALREADY_USED
  | DATABASE_ERROR | TRANSACTION_FAILED | INTERNAL_ERROR
  | NOT_FOUND

text \<open>
  \<^verbatim>\<open>APIError\<close>: HTTP status, error code and message. Its \<^verbatim>\<open>details\<close> are null
  on every path modelled here and its creation timestamp is left out.
\<close>

record api_error =
  statusCode :: nat
  errorCode :: error_code
  message :: string

definition createValidationError :: "error_code \<Rightarrow> string \<Rightarrow> api_error" where
  "createValidationError c m = \<lparr>statusCode = 400, errorCode = c, message = m\<rparr>"

definition createUnauthorizedError :: "error_code \<Rightarrow> string \<Rightarrow> api_error" where
  "createUnauthorizedError c m = \<lparr>statusCode = 401, errorCode = c, message = m\<rparr>"

definition createNotFoundError :: "error_code \<Rightarrow> string \<Rightarrow> api_error" where
  "createNotFoundError c m = \<lparr>statusCode = 404, errorCode = c, message = m\<rparr>"

definition createConflictError :: "error_code \<Rightarrow> string \<Rightarrow> api_error" where
  "createConflictError c m = \<lparr>statusCode = 409, errorCode = c, message = m\<rparr>"

definition createServerError :: "error_code \<Rightarrow> string \<Rightarrow> api_error" where
  "createServerError c m = \<lparr>statusCode = 500, errorCode = c, message = m\<rparr>"

text \<open>
  What a \<^verbatim>\<open>try\<close> block can throw: an \<^verbatim>\<open>APIError\<close>, or any other
  \<^verbatim>\<open>Error\<close> (of the driver, of bcrypt, or a plain \<^verbatim>\<open>new Error(msg)\<close>), which
  has a message and no \<^verbatim>\<open>statusCode\<close>.
\<close>

datatype exn = ApiErr api_error | JsErr string

text \<open>\<^verbatim>\<open>catch (error) { if (error.statusCode) throw error; throw fallback }\<close>\<close>

fun rethrow :: "api_error \<Rightarrow> exn \<Rightarrow> api_error" where
  "rethrow fallback (ApiErr e) = (if statusCode e \<noteq> 0 then e else fallback)"
| "rethrow fallback (JsErr m) = fallback"

section \<open>The store\<close>

text \<open>
  The four tables the service reads and writes. The store answers every statement; a
  statement fails only where a constraint rejects it, or where it rejects a parameter.
  \<open>idMax\<close> is the largest value of the integer type of the \<^verbatim>\<open>AdminID\<close> column
  (the table definitions are not among the sources, so the type is a parameter of the store):
  the column holds the integers from \<open>- idMax - 1\<close> to \<open>idMax\<close>.
\<close>

record database =
  admins :: "row list"
  codes :: "row list"
  roles :: "row list"
  branches :: "row list"
  idMax :: int

text \<open>
  Every effect of the service, in the order it happens: the statements sent to the store
  and the calls into bcrypt.
\<close>

datatype event =
    SelectInvitation | SelectStudentID | SelectEmail | SelectRole | SelectBranch
  | BcryptHash | BcryptCompare
  | Begin | InsertAdmin | UpdateCode | Commit | Rollback
  | SelectAdminByEmail | SelectAdminById | UpdateAdminRow

text \<open>
  The world an operation runs in: the committed tables, the sequence that generates
  \<^verbatim>\<open>AdminID\<close> (a sequence is not rolled back), the clock, and the trace of effects.
\<close>

record world =
  db :: database
  adminSeq :: int
  now :: nat
  trace :: "event list"

definition logged :: "event \<Rightarrow> world \<Rightarrow> world" where
  "logged e w = w\<lparr>trace := trace w @ [e]\<rparr>"

section \<open>Invitation ledger check\<close>

text \<open>
  The query of \<^verbatim>\<open>validateInvitationCode\<close>: the invitation codes with the given
  \<^verbatim>\<open>Code\<close>, inner-joined with \<^verbatim>\<open>Role\<close> on \<^verbatim>\<open>RoleID\<close>.
\<close>

definition invitationRows :: "database \<Rightarrow> val \<Rightarrow> row list" where
  "invitationRows d code =
     concat (map (\<lambda>ic.
       map (\<lambda>r. select [''CodeID'', ''Code'', ''RoleID'', ''IsActive'', ''IsUsed'', ''ExpiresAt''] ic
                  @ [(''RoleName'', col r ''RoleName'')])
           (filter (\<lambda>r. sql_eq (col ic ''RoleID'') (col r ''RoleID'')) (roles d)))
       (filter (\<lambda>ic. sql_eq (col ic ''Code'') code) (codes d)))"

text \<open>\<^verbatim>\<open>new Date(x) < new Date()\<close> for a column value \<open>x\<close>.\<close>

fun before_now :: "val \<Rightarrow> nat \<Rightarrow> bool" where
  "before_now (JDate t) n = (t < n)"
| "before_now _ n = False"

definition validateInvitationCode :: "world \<Rightarrow> val \<Rightarrow> (api_error + row) \<times> world" where
  "validateInvitationCode w code =
     (case invitationRows (db w) code of
        [] \<Rightarrow> Inl (createNotFoundError INVALID_INVITATION_CODE ''Invitation code does not exist'')
      | invitationCode # _ \<Rightarrow>
          if \<not> truthy (col invitationCode ''IsActive'') then
            Inl (createValidationError INVITATION_CODE_INACTIVE ''Invitation code is inactive'')
          else if truthy (col invitationCode ''IsUsed'') then
            Inl (createValidationError INVITATION_CODE_ALREADY_USED
                   ''Invitation code has already been used'')
          else if truthy (col invitationCode ''ExpiresAt'')
                  \<and> before_now (col invitationCode ''ExpiresAt'') (now w) then
            Inl (createValidationError INVITATION_CODE_EXPIRED ''Invitation code has expired'')
          else Inr invitationCode,
      logged SelectInvitation w)"


section \<open>Request objects and bcrypt\<close>

text \<open>
  A JavaScript object of request data (the validated candidate, the update patch) is the
  list of its own properties. Reading a property that is not there gives
  \<^verbatim>\<open>undefined\<close>.
\<close>

type_synonym obj = "(string \<times> val) list"

definition property :: "obj \<Rightarrow> string \<Rightarrow> val" where
  "property ob k = (case map_of ob k of Some v \<Rightarrow> v | None \<Rightarrow> JUndefined)"

text \<open>
  \<^verbatim>\<open>a === b\<close>: equality of primitives; two Date objects are never the same object.
\<close>

fun strict_eq :: "val \<Rightarrow> val \<Rightarrow> bool" where
  "strict_eq (JDate s) (JDate t) = False"
| "strict_eq a b = (a = b)"

text \<open>Decimal rendering of a number inside a template literal.\<close>

definition digit_char :: "nat \<Rightarrow> char" where
  "digit_char d = ''0123456789'' ! d"

function string_of_nat :: "nat \<Rightarrow> string" where
  "string_of_nat n =
     (if n < 10 then [digit_char n] else string_of_nat (n div 10) @ [digit_char (n mod 10)])"
  by pat_completeness auto
termination
  by (relation "measure id") auto

declare string_of_nat.simps [simp del]

text \<open>
  \<^verbatim>\<open>`${v}`\<close>. The rendering of a Date depends on the locale and is not spelled out;
  no template of the service is given one.
\<close>

fun template :: "val \<Rightarrow> string" where
  "template JUndefined = ''undefined''"
| "template JNull = ''null''"
| "template (JBool b) = (if b then ''true'' else ''false'')"
| "template (JNum n) = (if n < 0 then ''-'' @ string_of_nat (nat (- n)) else string_of_nat (nat n))"
| "template (JStr s) = s"
| "template (JDate t) = ''[object Date]''"

text \<open>
  The bcrypt library is not part of the repository. It is a parameter: any hashing function
  (of the plaintext and the cost factor) and any comparison.
\<close>

record bcrypt =
  hash :: "string \<Rightarrow> nat \<Rightarrow> string"
  compare :: "string \<Rightarrow> string \<Rightarrow> bool"

text \<open>\<^verbatim>\<open>bcrypt.hash(data, rounds)\<close> rejects data that is not a string.\<close>

fun bcrypt_hash :: "bcrypt \<Rightarrow> val \<Rightarrow> nat \<Rightarrow> string + string" where
  "bcrypt_hash lib (JStr p) rounds = Inr (hash lib p rounds)"
| "bcrypt_hash lib JUndefined rounds = Inl ''data and salt arguments required''"
| "bcrypt_hash lib JNull rounds = Inl ''data and salt arguments required''"
| "bcrypt_hash lib v rounds =
     Inl ''data must be a string or Buffer and salt must either be a salt string or a number of rounds''"

text \<open>\<^verbatim>\<open>bcrypt.compare(data, hash)\<close> rejects arguments that are not strings.\<close>

fun bcrypt_compare :: "bcrypt \<Rightarrow> val \<Rightarrow> val \<Rightarrow> string + bool" where
  "bcrypt_compare lib (JStr p) (JStr h) = Inr (compare lib p h)"
| "bcrypt_compare lib d h =
     (if d = JUndefined \<or> d = JNull \<or> h = JUndefined \<or> h = JNull
      then Inl ''data and hash arguments required''
      else Inl ''data and hash must be strings'')"

section \<open>Uniqueness checks and reference validators\<close>

definition checkStudentIDExists :: "world \<Rightarrow> val \<Rightarrow> bool \<times> world" where
  "checkStudentIDExists w studentID =
     (take 1 (map (select [''AdminID''])
        (filter (\<lambda>r. sql_eq (col r ''StudentID'') studentID) (admins (db w)))) \<noteq> [],
      logged SelectStudentID w)"

definition checkEmailExists :: "world \<Rightarrow> val \<Rightarrow> bool \<times> world" where
  "checkEmailExists w email =
     (take 1 (map (select [''AdminID''])
        (filter (\<lambda>r. sql_eq (col r ''Email'') email) (admins (db w)))) \<noteq> [],
      logged SelectEmail w)"

definition validateRole :: "world \<Rightarrow> val \<Rightarrow> (api_error + row) \<times> world" where
  "validateRole w roleID =
     (case map (select [''RoleID'', ''RoleName'', ''AccessLevel''])
             (filter (\<lambda>r. sql_eq (col r ''RoleID'') roleID) (roles (db w))) of
        [] \<Rightarrow> Inl (createValidationError INVALID_ROLE ''Invalid Role ID'')
      | r # _ \<Rightarrow> Inr r,
      logged SelectRole w)"

text \<open>Returns \<^verbatim>\<open>null\<close> (here \<open>None\<close>), without a query, when no branch is given.\<close>

definition validateBranch :: "world \<Rightarrow> val \<Rightarrow> (api_error + row option) \<times> world" where
  "validateBranch w branchID =
     (if \<not> truthy branchID then (Inr None, w)
      else
        (case map (select [''BranchID'', ''BranchName''])
                (filter (\<lambda>r. sql_eq (col r ''BranchID'') branchID) (branches (db w))) of
           [] \<Rightarrow> Inl (createValidationError INVALID_BRANCH ''Invalid Branch ID'')
         | r # _ \<Rightarrow> Inr (Some r),
         logged SelectBranch w))"

definition branchExists :: "database \<Rightarrow> val \<Rightarrow> bool" where
  "branchExists d v = list_ex (\<lambda>r. sql_eq (col r ''BranchID'') v) (branches d)"

definition hashPassword :: "bcrypt \<Rightarrow> world \<Rightarrow> val \<Rightarrow> (api_error + val) \<times> world" where
  "hashPassword lib w password =
     (case bcrypt_hash lib password 12 of
        Inr h \<Rightarrow> Inr (JStr h)
      | Inl m \<Rightarrow> Inl (createServerError INTERNAL_ERROR ''Error hashing password''),
      logged BcryptHash w)"

section \<open>The atomic creation\<close>

text \<open>The driver sends an undefined parameter as NULL.\<close>

definition sql_param :: "val \<Rightarrow> val" where
  "sql_param v = (if v = JUndefined then JNull else v)"

text \<open>
  Modelled from the spec: the table definitions are not among the sources, so what the
  store does with the INSERT follows the specification's storage contract. \<^verbatim>\<open>AdminID\<close>
  is generated, \<^verbatim>\<open>CreatedAt\<close> and \<^verbatim>\<open>UpdatedAt\<close> default to the current time, the
  derivation of \<^verbatim>\<open>CurrentYear\<close> is not defined anywhere and the column is left NULL, and
  the store enforces uniqueness of the student identifier and of the email, each on its own
  (\<open>studentIDTaken\<close>, \<open>emailTaken\<close>: some admin row already holds the value).
  A rejected INSERT throws the driver's error; the sequence value it took is not given back.
  The driver's message names the violated constraint, whose name is not known: the two
  messages here only tell the constraints apart.
\<close>

definition studentIDTaken :: "database \<Rightarrow> val \<Rightarrow> bool" where
  "studentIDTaken d v = list_ex (\<lambda>r. sql_eq (col r ''StudentID'') v) (admins d)"

definition emailTaken :: "database \<Rightarrow> val \<Rightarrow> bool" where
  "emailTaken d v = list_ex (\<lambda>r. sql_eq (col r ''Email'') v) (admins d)"

definition insertAdminRow :: "world \<Rightarrow> val list \<Rightarrow> (string + row list) \<times> world" where
  "insertAdminRow w adminValues =
     (let newRow =
            [(''AdminID'', JNum (adminSeq w))]
            @ zip [''StudentID'', ''FullName'', ''Email'', ''PasswordHash'', ''Phone'', ''RoleID'',
                   ''BranchID'', ''GraduationYear'', ''InvitationCode'']
                  (map sql_param adminValues)
            @ [(''CurrentYear'', JNull), (''CreatedAt'', JDate (now w)),
               (''UpdatedAt'', JDate (now w))];
          w1 = logged InsertAdmin (w\<lparr>adminSeq := adminSeq w + 1\<rparr>)
      in if studentIDTaken (db w) (col newRow ''StudentID'')
         then (Inl ''duplicate key value violates unique constraint on StudentID'', w1)
         else if emailTaken (db w) (col newRow ''Email'')
         then (Inl ''duplicate key value violates unique constraint on Email'', w1)
         else (Inr [select [''AdminID'', ''StudentID'', ''FullName'', ''Email'', ''Phone'', ''RoleID'',
                            ''BranchID'', ''GraduationYear'', ''CurrentYear'', ''CreatedAt''] newRow],
               w1\<lparr>db := (db w1)\<lparr>admins := admins (db w1) @ [newRow]\<rparr>\<rparr>))"

text \<open>The UPDATE that marks the invitation code as used, with its RETURNING rows.\<close>

definition markCodeUsed :: "world \<Rightarrow> val \<Rightarrow> val \<Rightarrow> row list \<times> world" where
  "markCodeUsed w adminID codeID =
     (let hit = (\<lambda>r. sql_eq (col r ''CodeID'') (sql_param codeID));
          codes' = map (\<lambda>r. if hit r
                             then setcol ''UpdatedAt'' (JDate (now w))
                                    (setcol ''UsedByAdminID'' (sql_param adminID)
                                      (setcol ''IsUsed'' (JBool True) r))
                             else r) (codes (db w))
      in (map (select [''CodeID'']) (filter hit codes'),
          logged UpdateCode (w\<lparr>db := (db w)\<lparr>codes := codes'\<rparr>\<rparr>)))"

text \<open>
  The \<^verbatim>\<open>try\<close> block of \<^verbatim>\<open>createAdminWithTransaction\<close>, from BEGIN to COMMIT. It
  works on the tables of the world it is given; whatever it throws is an error message.
\<close>

definition transactionBody :: "world \<Rightarrow> obj \<Rightarrow> row \<Rightarrow> (string + row) \<times> world" where
  "transactionBody w adminData invitationCodeData =
     (let w0 = logged Begin w;
          adminValues =
            [property adminData ''studentID'', property adminData ''fullName'',
             property adminData ''email'', property adminData ''passwordHash'',
             property adminData ''phone'', property adminData ''roleID'',
             (if truthy (property adminData ''branchID'') then property adminData ''branchID''
              else JNull),
             property adminData ''graduationYear'', property adminData ''invitationCode''];
          (adminResult, w1) = insertAdminRow w0 adminValues
      in case adminResult of
           Inl m \<Rightarrow> (Inl m, w1)
         | Inr [] \<Rightarrow> (Inl ''Failed to create admin'', w1)
         | Inr (createdAdmin # _) \<Rightarrow>
             (let (codeResult, w2) =
                    markCodeUsed w1 (col createdAdmin ''AdminID'') (col invitationCodeData ''CodeID'')
              in if codeResult = [] then (Inl ''Failed to mark invitation code as used'', w2)
                 else (Inr createdAdmin, logged Commit w2)))"

text \<open>
  The \<^verbatim>\<open>catch\<close> block: ROLLBACK puts the tables back to what they were at BEGIN, and the
  error becomes \<^verbatim>\<open>TRANSACTION_FAILED\<close> with the message of what was thrown.
\<close>

definition createAdminWithTransaction :: "world \<Rightarrow> obj \<Rightarrow> row \<Rightarrow> (api_error + row) \<times> world" where
  "createAdminWithTransaction w adminData invitationCodeData =
     (case transactionBody w adminData invitationCodeData of
        (Inr createdAdmin, w') \<Rightarrow> (Inr createdAdmin, w')
      | (Inl m, w') \<Rightarrow>
          (Inl (createServerError TRANSACTION_FAILED m), (logged Rollback w')\<lparr>db := db w\<rparr>))"

section \<open>The onboarding orchestrator\<close>

definition onboardAdmin :: "bcrypt \<Rightarrow> world \<Rightarrow> obj \<Rightarrow> (api_error + row) \<times> world" where
  "onboardAdmin lib w validatedData =
     (case validateInvitationCode w (property validatedData ''invitationCode'') of
        (Inl e, w1) \<Rightarrow> (Inl e, w1)
      | (Inr invitationCode, w1) \<Rightarrow>
          if \<not> strict_eq (property validatedData ''roleID'') (col invitationCode ''RoleID'') then
            (Inl (createValidationError INVALID_ROLE
                    (''RoleID must match invitation code (expected: ''
                       @ template (col invitationCode ''RoleID'') @ '')'')), w1)
          else
            (let (studentTaken, w2) = checkStudentIDExists w1 (property validatedData ''studentID'')
             in if studentTaken then
                  (Inl (createConflictError DUPLICATE_STUDENT_ID ''Student ID already exists''), w2)
                else
                  (let (emailTaken, w3) = checkEmailExists w2 (property validatedData ''email'')
                   in if emailTaken then
                        (Inl (createConflictError DUPLICATE_EMAIL ''Email already registered''), w3)
                      else
                        (case validateRole w3 (property validatedData ''roleID'') of
                           (Inl e, w4) \<Rightarrow> (Inl e, w4)
                         | (Inr role, w4) \<Rightarrow>
                             (case (if truthy (property validatedData ''branchID'')
                                    then validateBranch w4 (property validatedData ''branchID'')
                                    else (Inr None, w4)) of
                                (Inl e, w5) \<Rightarrow> (Inl e, w5)
                              | (Inr branch, w5) \<Rightarrow>
                                  (case hashPassword lib w5 (property validatedData ''password'') of
                                     (Inl e, w6) \<Rightarrow> (Inl e, w6)
                                   | (Inr passwordHash, w6) \<Rightarrow>
                                       createAdminWithTransaction w6
                                         (setcol ''passwordHash'' passwordHash validatedData)
                                         invitationCode))))))"

section \<open>Login\<close>

text \<open>The \<^verbatim>\<open>try\<close> block of \<^verbatim>\<open>loginAdmin\<close>.\<close>

definition loginBody :: "bcrypt \<Rightarrow> world \<Rightarrow> val \<Rightarrow> val \<Rightarrow> (exn + obj) \<times> world" where
  "loginBody lib w email password =
     (let w1 = logged SelectAdminByEmail w
      in case map (select [''AdminID'', ''StudentID'', ''Email'', ''FullName'', ''Phone'', ''RoleID'',
                           ''BranchID'', ''GraduationYear'', ''CurrentYear'', ''PasswordHash'',
                           ''CreatedAt''])
                (filter (\<lambda>r. sql_eq (col r ''Email'') (sql_param email)) (admins (db w))) of
           [] \<Rightarrow> (Inl (ApiErr (createValidationError INVALID_INPUT ''Invalid email or password'')), w1)
         | admin # _ \<Rightarrow>
             (case bcrypt_compare lib password (col admin ''PasswordHash'') of
                Inl m \<Rightarrow> (Inl (JsErr m), logged BcryptCompare w1)
              | Inr isPasswordValid \<Rightarrow>
                  if \<not> isPasswordValid then
                    (Inl (ApiErr (createValidationError INVALID_INPUT ''Invalid email or password'')),
                     logged BcryptCompare w1)
                  else
                    (Inr [(''AdminID'', col admin ''AdminID''),
                          (''StudentID'', col admin ''StudentID''),
                          (''Email'', col admin ''Email''),
                          (''FullName'', col admin ''FullName''),
                          (''Phone'', col admin ''Phone''),
                          (''RoleID'', col admin ''RoleID''),
                          (''BranchID'', col admin ''BranchID''),
                          (''GraduationYear'', col admin ''GraduationYear''),
                          (''CurrentYear'', col admin ''CurrentYear''),
                          (''CreatedAt'', col admin ''CreatedAt'')],
                     logged BcryptCompare w1)))"

definition loginAdmin :: "bcrypt \<Rightarrow> world \<Rightarrow> val \<Rightarrow> val \<Rightarrow> (api_error + obj) \<times> world" where
  "loginAdmin lib w email password =
     (case loginBody lib w email password of
        (Inr admin, w') \<Rightarrow> (Inr admin, w')
      | (Inl x, w') \<Rightarrow> (Inl (rethrow (createServerError DATABASE_ERROR ''Error during login'') x), w'))"

section \<open>Profile update\<close>

text \<open>
  The dynamic UPDATE of \<^verbatim>\<open>updateAdmin\<close>: the SET list applied, left to right, to every
  row with the given \<^verbatim>\<open>AdminID\<close>, and the RETURNING rows.
\<close>

definition applySets :: "(string \<times> val) list \<Rightarrow> row \<Rightarrow> row" where
  "applySets sets r = foldl (\<lambda>r' (c, v). setcol c (sql_param v) r') r sets"

definition updateAdminRows :: "world \<Rightarrow> (string \<times> val) list \<Rightarrow> val \<Rightarrow> row list \<times> world" where
  "updateAdminRows w sets AdminID =
     (let hit = (\<lambda>r. sql_eq (col r ''AdminID'') (sql_param AdminID));
          admins' = map (\<lambda>r. if hit r then applySets sets r else r) (admins (db w))
      in (map (select [''AdminID'', ''StudentID'', ''FullName'', ''Email'', ''Phone'', ''RoleID'',
                       ''BranchID'', ''GraduationYear'', ''CurrentYear'', ''CreatedAt'',
                       ''UpdatedAt''])
              (filter hit admins'),
          logged UpdateAdminRow (w\<lparr>db := (db w)\<lparr>admins := admins'\<rparr>\<rparr>)))"

text \<open>
  The part of the \<^verbatim>\<open>try\<close> block after the old password has been verified: building the
  SET list, hashing the new password, and the UPDATE.
\<close>

definition updateWrite :: "bcrypt \<Rightarrow> world \<Rightarrow> val \<Rightarrow> obj \<Rightarrow> (exn + row) \<times> world" where
  "updateWrite lib w AdminID updateData =
     (let fullName = property updateData ''fullName'';
          phone = property updateData ''phone'';
          password = property updateData ''password'';
          updateFields =
            (if truthy fullName then [(''FullName'', fullName)] else [])
            @ (if truthy phone then [(''Phone'', phone)] else []);
          (hashed, w1) =
            (if truthy password then
               (case hashPassword lib w password of
                  (Inl e, w') \<Rightarrow> (Inl (ApiErr e), w')
                | (Inr newPasswordHash, w') \<Rightarrow>
                    (Inr (updateFields @ [(''PasswordHash'', newPasswordHash)]), w'))
             else (Inr updateFields, w))
      in case hashed of
           Inl x \<Rightarrow> (Inl x, w1)
         | Inr setList \<Rightarrow>
             (let (result, w2) =
                    updateAdminRows w1 (setList @ [(''UpdatedAt'', JDate (now w1))]) AdminID
              in case result of
                   [] \<Rightarrow> (Inl (ApiErr (createServerError DATABASE_ERROR ''Failed to update admin'')), w2)
                 | r # _ \<Rightarrow> (Inr r, w2)))"

text \<open>
  The identifier of \<^verbatim>\<open>updateAdmin\<close> comes from the URL: the controller lets every
  positive integer through. The store rejects a number that the \<^verbatim>\<open>AdminID\<close> column
  cannot hold: the statement is not run and the driver throws.
\<close>

fun out_of_range :: "database \<Rightarrow> val \<Rightarrow> bool" where
  "out_of_range d (JNum n) = (n < - idMax d - 1 \<or> idMax d < n)"
| "out_of_range d v = False"

text \<open>The whole \<^verbatim>\<open>try\<close> block of \<^verbatim>\<open>updateAdmin\<close>.\<close>

definition updateBody :: "bcrypt \<Rightarrow> world \<Rightarrow> val \<Rightarrow> obj \<Rightarrow> (exn + row) \<times> world" where
  "updateBody lib w AdminID updateData =
     (let w1 = logged SelectAdminById w
      in if out_of_range (db w) AdminID then
           (Inl (JsErr ''value is out of range for type integer''), w1)
         else
         case map (select [''AdminID'', ''PasswordHash''])
                (filter (\<lambda>r. sql_eq (col r ''AdminID'') (sql_param AdminID)) (admins (db w))) of
           [] \<Rightarrow> (Inl (ApiErr (createNotFoundError INVALID_INPUT ''Admin not found'')), w1)
         | admin # _ \<Rightarrow>
             if truthy (property updateData ''password'') then
               (case bcrypt_compare lib (property updateData ''oldPassword'')
                       (col admin ''PasswordHash'') of
                  Inl m \<Rightarrow> (Inl (JsErr m), logged BcryptCompare w1)
                | Inr isOldPasswordValid \<Rightarrow>
                    if \<not> isOldPasswordValid then
                      (Inl (ApiErr (createValidationError INVALID_INPUT
                                      ''Current password is incorrect'')),
                       logged BcryptCompare w1)
                    else updateWrite lib (logged BcryptCompare w1) AdminID updateData)
             else updateWrite lib w1 AdminID updateData)"

definition updateAdmin :: "bcrypt \<Rightarrow> world \<Rightarrow> val \<Rightarrow> obj \<Rightarrow> (api_error + row) \<times> world" where
  "updateAdmin lib w AdminID updateData =
     (case updateBody lib w AdminID updateData of
        (Inr admin, w') \<Rightarrow> (Inr admin, w')
      | (Inl x, w') \<Rightarrow>
          (Inl (rethrow (createServerError DATABASE_ERROR ''Error updating admin details'') x), w'))"

section \<open>The update route: validation middleware and controller\<close>

text \<open>
  The field validators live in utils/validators.js, which is not among the sources. The
  middleware takes them as parameters: each either returns the validated value or throws.
\<close>

record validators =
  validateFullName :: "val \<Rightarrow> exn + val"
  validatePhone :: "val \<Rightarrow> exn + val"
  validatePassword :: "val \<Rightarrow> exn + val"

text \<open>
  \<^verbatim>\<open>catch (error) { if (error.statusCode) return next(error);
  next(createValidationError(INVALID_INPUT, error.message)) }\<close>
\<close>

fun asValidationError :: "exn \<Rightarrow> api_error" where
  "asValidationError (ApiErr e) =
     (if statusCode e \<noteq> 0 then e else createValidationError INVALID_INPUT (message e))"
| "asValidationError (JsErr m) = createValidationError INVALID_INPUT m"

definition present :: "val \<Rightarrow> bool" where
  "present v = (v \<noteq> JUndefined \<and> v \<noteq> JNull)"

text \<open>The \<^verbatim>\<open>try\<close> block of \<^verbatim>\<open>validateAdminUpdateInput\<close>; the result is \<^verbatim>\<open>req.validated\<close>.\<close>

definition validateUpdateBody :: "validators \<Rightarrow> obj \<Rightarrow> exn + obj" where
  "validateUpdateBody vs body =
     (let fullName = property body ''fullName'';
          phone = property body ''phone'';
          password = property body ''password'';
          oldPassword = property body ''oldPassword''
      in case (if present fullName
               then (case validateFullName vs fullName of
                       Inl x \<Rightarrow> Inl x | Inr v \<Rightarrow> Inr [(''fullName'', v)])
               else Inr []) of
           Inl x \<Rightarrow> Inl x
         | Inr validated1 \<Rightarrow>
             (case (if present phone
                    then (case validatePhone vs phone of
                            Inl x \<Rightarrow> Inl x | Inr v \<Rightarrow> Inr (setcol ''phone'' v validated1))
                    else Inr validated1) of
                Inl x \<Rightarrow> Inl x
              | Inr validated2 \<Rightarrow>
                  (case (if present password
                         then (if \<not> truthy oldPassword
                               then Inl (ApiErr (createValidationError MISSING_FIELD
                                                   ''Old password is required to set new password''))
                               else (case validatePassword vs password of
                                       Inl x \<Rightarrow> Inl x
                                     | Inr v \<Rightarrow>
                                         Inr (setcol ''oldPassword'' oldPassword
                                                (setcol ''password'' v validated2))))
                         else Inr validated2) of
                     Inl x \<Rightarrow> Inl x
                   | Inr validated \<Rightarrow>
                       if validated = [] then
                         Inl (ApiErr (createValidationError INVALID_INPUT
                           ''At least one field (fullName, phone, or password) must be provided''))
                       else Inr validated)))"

definition validateAdminUpdateInput :: "validators \<Rightarrow> obj \<Rightarrow> api_error + obj" where
  "validateAdminUpdateInput vs body =
     (case validateUpdateBody vs body of
        Inl x \<Rightarrow> Inl (asValidationError x)
      | Inr validated \<Rightarrow> Inr validated)"

text \<open>\<^verbatim>\<open>sanitizeAdminInput\<close> on a request whose body is a JSON object.\<close>

definition sanitizeAdminInput :: "obj \<Rightarrow> api_error + obj" where
  "sanitizeAdminInput body =
     (if body = [] then Inl (createValidationError MISSING_FIELD ''Request body cannot be empty'')
      else Inr body)"

text \<open>
  \<^verbatim>\<open>updateAdminHandler\<close>. \<open>adminId\<close> is what \<^verbatim>\<open>parseInt(adminId, 10)\<close> gave for the route
  parameter, \<open>None\<close> for NaN. The result is the \<^verbatim>\<open>data.admin\<close> object of the response.
\<close>

definition updateAdminHandler ::
  "bcrypt \<Rightarrow> world \<Rightarrow> int option \<Rightarrow> obj \<Rightarrow> (api_error + obj) \<times> world" where
  "updateAdminHandler lib w adminId validatedData =
     (case adminId of
        None \<Rightarrow> (Inl (createValidationError INVALID_INPUT ''Invalid admin ID''), w)
      | Some i \<Rightarrow>
          if i \<le> 0 then (Inl (createValidationError INVALID_INPUT ''Invalid admin ID''), w)
          else
            (case updateAdmin lib w (JNum i) validatedData of
               (Inl e, w') \<Rightarrow> (Inl e, w')
             | (Inr admin, w') \<Rightarrow>
                 (Inr [(''adminID'', col admin ''AdminID''),
                       (''studentID'', col admin ''StudentID''),
                       (''fullName'', col admin ''FullName''),
                       (''email'', col admin ''Email''),
                       (''phone'', col admin ''Phone''),
                       (''roleID'', col admin ''RoleID''),
                       (''branchID'', col admin ''BranchID''),
                       (''graduationYear'', col admin ''GraduationYear''),
                       (''currentYear'', col admin ''CurrentYear''),
                       (''createdAt'', col admin ''CreatedAt''),
                       (''updatedAt'', col admin ''UpdatedAt'')], w')))"

text \<open>
  A request to the update route: its headers, what \<^verbatim>\<open>parseInt(adminId, 10)\<close> gives
  for the route parameter, and its JSON body.
\<close>

record request =
  req_headers :: obj
  req_adminId :: "int option"
  req_body :: obj

text \<open>
  The two authentication middlewares of the route, \<^verbatim>\<open>authenticateAdmin\<close> and
  \<^verbatim>\<open>authorizeUpdateAdmin\<close>, live in middleware/authMiddleware.js, which is not among
  the sources. The route takes them as parameters. Each looks at the request, and may read
  the world; it either ends the request with an error or lets it through.
  \<^verbatim>\<open>authenticateAdmin\<close> hands on the admin it has found (\<^verbatim>\<open>req.admin\<close>).
\<close>

record guards =
  authenticateAdmin :: "world \<Rightarrow> request \<Rightarrow> api_error + obj"
  authorizeUpdateAdmin :: "world \<Rightarrow> request \<Rightarrow> obj \<Rightarrow> api_error option"

text \<open>
  The chain of \<^verbatim>\<open>PUT /admin/:adminId\<close>: sanitising, authentication, authorisation,
  validation, controller; the first middleware that calls \<^verbatim>\<open>next(error)\<close> ends the
  request.
\<close>

definition updateAdminRoute ::
  "guards \<Rightarrow> validators \<Rightarrow> bcrypt \<Rightarrow> world \<Rightarrow> request \<Rightarrow> (api_error + obj) \<times> world" where
  "updateAdminRoute gs vs lib w req =
     (case sanitizeAdminInput (req_body req) of
        Inl e \<Rightarrow> (Inl e, w)
      | Inr _ \<Rightarrow>
          (case authenticateAdmin gs w req of
             Inl e \<Rightarrow> (Inl e, w)
           | Inr admin \<Rightarrow>
               (case authorizeUpdateAdmin gs w req admin of
                  Some e \<Rightarrow> (Inl e, w)
                | None \<Rightarrow>
                    (case validateAdminUpdateInput vs (req_body req) of
                       Inl e \<Rightarrow> (Inl e, w)
                     | Inr validated \<Rightarrow>
                         updateAdminHandler lib w (req_adminId req) validated))))"

section \<open>Token verification\<close>

text \<open>
  The jsonwebtoken library is not part of the repository. A token string either is no JWT
  at all, or decodes to its claims, and was signed with some key: verification of the
  signature succeeds with that key and no other.
\<close>

record token =
  claims :: obj
  iss :: string
  aud :: string
  sub :: string
  exp :: nat
  signedWith :: string

datatype jwt = NotAToken string | SignedToken token

text \<open>
  \<^verbatim>\<open>jwt.verify(token, secret, {issuer, audience})\<close> at clock time \<open>clock\<close> (seconds):
  the library checks signature, expiry, audience and issuer in this order, and throws with
  the message given here. For a string that is not a token the library's message varies
  with what is wrong with the string; \<^verbatim>\<open>jwt malformed\<close> stands for all of them.
\<close>

definition jwt_verify :: "jwt \<Rightarrow> string \<Rightarrow> string \<Rightarrow> string \<Rightarrow> nat \<Rightarrow> string + token" where
  "jwt_verify t secret issuer audience clock =
     (case t of
        NotAToken _ \<Rightarrow> Inl ''jwt malformed''
      | SignedToken k \<Rightarrow>
          if signedWith k \<noteq> secret then Inl ''invalid signature''
          else if exp k \<le> clock then Inl ''jwt expired''
          else if aud k \<noteq> audience then Inl (''jwt audience invalid. expected: '' @ audience)
          else if iss k \<noteq> issuer then Inl (''jwt issuer invalid. expected: '' @ issuer)
          else Inr k)"

text \<open>\<open>JWT_SECRET\<close> is \<^verbatim>\<open>process.env.JWT_SECRET\<close>, \<open>None\<close> when the variable is not set.\<close>

definition verifyJWT :: "string option \<Rightarrow> nat \<Rightarrow> jwt \<Rightarrow> api_error + token" where
  "verifyJWT JWT_SECRET clock t =
     (case JWT_SECRET of
        None \<Rightarrow> Inl (createServerError INTERNAL_ERROR ''JWT_SECRET not configured'')
      | Some secret \<Rightarrow>
          if secret = [] then Inl (createServerError INTERNAL_ERROR ''JWT_SECRET not configured'')
          else
            (case jwt_verify t secret ''gfg-event-management'' ''admin-api'' clock of
               Inr decoded \<Rightarrow> Inr decoded
             | Inl m \<Rightarrow>
                 Inl (createServerError INTERNAL_ERROR (''JWT verification failed: '' @ m))))"

section \<open>Concrete data for running the model\<close>

text \<open>
  A stand-in for bcrypt in concrete runs: the digest is the plaintext behind a marker, and
  comparison recomputes it. The theorems below hold for every hashing and comparison
  function; this one only serves to run examples.
\<close>

definition marker_bcrypt :: bcrypt where
  "marker_bcrypt = \<lparr>hash = (\<lambda>p rounds. ''$2b$12$'' @ p), compare = (\<lambda>p h. h = ''$2b$12$'' @ p)\<rparr>"

text \<open>
  A small store with 32-bit identifiers: two roles, one branch, one admin (identifier 1), and four invitation
  codes: one eligible and bound to role 1; one inactive, used and past its expiry; one
  active, used and past its expiry; one active, unused and past its expiry.
\<close>

definition store0 :: database where
  "store0 =
     \<lparr>admins =
        [[(''AdminID'', JNum 1), (''StudentID'', JStr ''CS2023007''), (''FullName'', JStr ''Asha Rao''),
          (''Email'', JStr ''asha@example.com''), (''PasswordHash'', JStr ''$2b$12$OldPass@123''),
          (''Phone'', JStr ''+919800000001''), (''RoleID'', JNum 2), (''BranchID'', JNull),
          (''GraduationYear'', JNum 2025), (''InvitationCode'', JStr ''INVITE2023XYZ''),
          (''CurrentYear'', JNull), (''CreatedAt'', JDate 100), (''UpdatedAt'', JDate 100)]],
      codes =
        [[(''CodeID'', JNum 7), (''Code'', JStr ''INVITE2024ABC''), (''RoleID'', JNum 1),
          (''IsActive'', JBool True), (''IsUsed'', JBool False), (''ExpiresAt'', JNull),
          (''UsedByAdminID'', JNull), (''UpdatedAt'', JDate 50)],
         [(''CodeID'', JNum 8), (''Code'', JStr ''CLOSED2023AAA''), (''RoleID'', JNum 1),
          (''IsActive'', JBool False), (''IsUsed'', JBool True), (''ExpiresAt'', JDate 10),
          (''UsedByAdminID'', JNum 1), (''UpdatedAt'', JDate 50)],
         [(''CodeID'', JNum 9), (''Code'', JStr ''SPENT2023BBB''), (''RoleID'', JNum 2),
          (''IsActive'', JBool True), (''IsUsed'', JBool True), (''ExpiresAt'', JDate 10),
          (''UsedByAdminID'', JNum 1), (''UpdatedAt'', JDate 50)],
         [(''CodeID'', JNum 10), (''Code'', JStr ''STALE2023CCC''), (''RoleID'', JNum 1),
          (''IsActive'', JBool True), (''IsUsed'', JBool False), (''ExpiresAt'', JDate 10),
          (''UsedByAdminID'', JNull), (''UpdatedAt'', JDate 50)]],
      roles =
        [[(''RoleID'', JNum 1), (''RoleName'', JStr ''Organizer''), (''AccessLevel'', JNum 1)],
         [(''RoleID'', JNum 2), (''RoleName'', JStr ''SuperAdmin''), (''AccessLevel'', JNum 9)]],
      branches = [[(''BranchID'', JNum 1), (''BranchName'', JStr ''CSE'')]],
      idMax = 2147483647\<rparr>"

definition world0 :: world where
  "world0 = \<lparr>db = store0, adminSeq = 2, now = 1000, trace = []\<rparr>"

text \<open>
  Modelled from the spec: \<^verbatim>\<open>validatePhone\<close> belongs to utils/validators.js, which is
  not among the sources. The specification has the validation layer enforce a phone number
  in international dialling format and reject malformed input; the pattern is
  \<^verbatim>\<open>REGEX_PATTERNS.PHONE\<close>, \<^verbatim>\<open>/^\+?[1-9]\d{1,14}$/\<close>, and the error code
  \<^verbatim>\<open>INVALID_PHONE\<close> with its message, both of constants/errorCodes.js.
\<close>

definition is_digit :: "char \<Rightarrow> bool" where
  "is_digit ch = (ch \<in> set ''0123456789'')"

definition matches_PHONE :: "string \<Rightarrow> bool" where
  "matches_PHONE s =
     (case (case s of [] \<Rightarrow> [] | ch # rest \<Rightarrow> if ch = CHR ''+'' then rest else s) of
        [] \<Rightarrow> False
      | d # ds \<Rightarrow> d \<in> set ''123456789'' \<and> 1 \<le> length ds \<and> length ds \<le> 14 \<and> list_all is_digit ds)"

definition validatePhone_spec :: "val \<Rightarrow> exn + val" where
  "validatePhone_spec v =
     (case v of
        JStr s \<Rightarrow>
          if matches_PHONE s then Inr (JStr s)
          else Inl (ApiErr (createValidationError INVALID_PHONE ''Invalid phone number format''))
      | _ \<Rightarrow> Inl (ApiErr (createValidationError INVALID_PHONE ''Invalid phone number format'')))"

text \<open>
  Validators for concrete runs: the phone validator above; the other two hand back what
  they are given, and no run below reaches them.
\<close>

definition validators0 :: validators where
  "validators0 =
     \<lparr>validateFullName = Inr, validatePhone = validatePhone_spec, validatePassword = Inr\<rparr>"

text \<open>
  Guards for concrete runs: they let every request through, as they do for an admin who
  updates the own profile with a valid token.
\<close>

definition guards0 :: guards where
  "guards0 =
     \<lparr>authenticateAdmin = (\<lambda>w req. Inr [(''adminID'', JNum 1)]),
      authorizeUpdateAdmin = (\<lambda>w req admin. None)\<rparr>"

text \<open>A well-formed token for the admin of \<open>store0\<close>, signed with the key \<open>s3cret\<close>.\<close>

definition token0 :: token where
  "token0 =
     \<lparr>claims = [(''adminID'', JNum 1), (''studentID'', JStr ''CS2023007''),
                (''email'', JStr ''asha@example.com''), (''roleID'', JNum 2),
                (''fullName'', JStr ''Asha Rao'')],
      iss = ''gfg-event-management'', aud = ''admin-api'', sub = ''admin-1'', exp = 90000,
      signedWith = ''s3cret''\<rparr>"

text \<open>The onboarding request of the API documentation.\<close>

definition candidate0 :: obj where
  "candidate0 =
     [(''studentID'', JStr ''CS2024001''), (''fullName'', JStr ''John Doe''),
      (''email'', JStr ''john@example.com''), (''password'', JStr ''SecurePass@123''),
      (''phone'', JStr ''+919876543210''), (''roleID'', JNum 1), (''graduationYear'', JNum 2026),
      (''invitationCode'', JStr ''INVITE2024ABC''), (''branchID'', JNum 1)]"

section \<open>Basic facts about rows and the trace\<close>

lemma col_setcol: "col (setcol c v r) c' = (if c' = c then v else col r c')"
  by (induction r) (auto simp: col_def)

lemma col_select: "col (select cs r) c = (if c \<in> set cs then col r c else JNull)"
  by (induction cs) (auto simp: select_def col_def)

lemma sql_eq_param: "sql_eq a (sql_param b) = sql_eq a b"
  by (auto simp: sql_eq_def sql_param_def)

lemma db_logged: "db (logged e w) = db w"
  and now_logged: "now (logged e w) = now w"
  and adminSeq_logged: "adminSeq (logged e w) = adminSeq w"
  and trace_logged: "trace (logged e w) = trace w @ [e]"
  by (simp_all add: logged_def)

section \<open>The atomic creation is all or nothing\<close>

lemma insertAdminRow_cases:
  assumes "insertAdminRow w vs = (r, w1)"
  shows "(\<exists>m. r = Inl m \<and> db w1 = db w)
       \<or> (\<exists>newRow. r = Inr [select [''AdminID'', ''StudentID'', ''FullName'', ''Email'', ''Phone'',
                                     ''RoleID'', ''BranchID'', ''GraduationYear'', ''CurrentYear'',
                                     ''CreatedAt''] newRow]
             \<and> db w1 = (db w)\<lparr>admins := admins (db w) @ [newRow]\<rparr>
             \<and> col newRow ''AdminID'' = JNum (adminSeq w))"
  using assms
  by (auto simp: insertAdminRow_def Let_def logged_def col_def split: if_splits)

lemma insertAdminRow_now: "now (snd (insertAdminRow w vs)) = now w"
  by (simp add: insertAdminRow_def Let_def logged_def)

lemma filter_hit_map:
  "(filter (\<lambda>r. sql_eq (col r ''CodeID'') c)
        (map (\<lambda>r. if sql_eq (col r ''CodeID'') c
                  then setcol ''UpdatedAt'' t (setcol ''UsedByAdminID'' a (setcol ''IsUsed'' u r))
                  else r) rs) = [])
   = (\<not> list_ex (\<lambda>r. sql_eq (col r ''CodeID'') c) rs)"
  by (induction rs) (auto simp: col_setcol)

lemma markCodeUsed_facts:
  assumes "markCodeUsed w a c = (rows, w2)"
  shows "admins (db w2) = admins (db w)" and "roles (db w2) = roles (db w)"
    and "branches (db w2) = branches (db w)"
    and "(rows = []) = (\<not> list_ex (\<lambda>r. sql_eq (col r ''CodeID'') c) (codes (db w)))"
    and "codes (db w2) =
           map (\<lambda>r. if sql_eq (col r ''CodeID'') c
                     then setcol ''UpdatedAt'' (JDate (now w))
                            (setcol ''UsedByAdminID'' (sql_param a) (setcol ''IsUsed'' (JBool True) r))
                     else r) (codes (db w))"
  using assms
  by (auto simp: markCodeUsed_def Let_def sql_eq_param logged_def filter_hit_map)

text \<open>
  Claim C1. Whatever the store holds and whatever data it is given,
  \<^verbatim>\<open>createAdminWithTransaction\<close> ends in one of two ways. Either it fails with
  \<^verbatim>\<open>TRANSACTION_FAILED\<close> and the tables are exactly those it started from; this covers
  the rejected INSERT (a student identifier or an email already taken) and the UPDATE that
  finds no invitation code, which comes after the admin row has been inserted. Or it returns
  the created admin, the \<^verbatim>\<open>Admin\<close> table has gained exactly that row, and every
  invitation code with the given \<^verbatim>\<open>CodeID\<close> (there is at least one) is marked used by
  the new \<^verbatim>\<open>AdminID\<close>; nothing else has changed. No third outcome exists.
\<close>

theorem createAdminWithTransaction_atomic:
  assumes "createAdminWithTransaction w adminData ic = (res, w')"
  shows "(\<exists>m. res = Inl (createServerError TRANSACTION_FAILED m) \<and> db w' = db w)
       \<or> (\<exists>newRow. res = Inr (select [''AdminID'', ''StudentID'', ''FullName'', ''Email'', ''Phone'',
                                     ''RoleID'', ''BranchID'', ''GraduationYear'', ''CurrentYear'',
                                     ''CreatedAt''] newRow)
             \<and> col newRow ''AdminID'' = JNum (adminSeq w)
             \<and> admins (db w') = admins (db w) @ [newRow]
             \<and> list_ex (\<lambda>r. sql_eq (col r ''CodeID'') (col ic ''CodeID'')) (codes (db w))
             \<and> codes (db w') =
                 map (\<lambda>r. if sql_eq (col r ''CodeID'') (col ic ''CodeID'')
                           then setcol ''UpdatedAt'' (JDate (now w))
                                  (setcol ''UsedByAdminID'' (JNum (adminSeq w))
                                    (setcol ''IsUsed'' (JBool True) r))
                           else r) (codes (db w))
             \<and> roles (db w') = roles (db w) \<and> branches (db w') = branches (db w))"
proof -
  define vs where "vs = [property adminData ''studentID'', property adminData ''fullName'',
             property adminData ''email'', property adminData ''passwordHash'',
             property adminData ''phone'', property adminData ''roleID'',
             (if truthy (property adminData ''branchID'') then property adminData ''branchID''
              else JNull),
             property adminData ''graduationYear'', property adminData ''invitationCode'']"
  obtain r w1 where ins: "insertAdminRow (logged Begin w) vs = (r, w1)"
    by (cases "insertAdminRow (logged Begin w) vs")
  have now1: "now w1 = now w"
    using insertAdminRow_now [of "logged Begin w" vs] ins by (simp add: now_logged)
  from insertAdminRow_cases [OF ins] show ?thesis
  proof (elim disjE exE conjE)
    fix m assume "r = Inl m" "db w1 = db (logged Begin w)"
    with assms ins show ?thesis
      by (auto simp: createAdminWithTransaction_def transactionBody_def Let_def vs_def)
  next
    fix newRow
    assume r: "r = Inr [select [''AdminID'', ''StudentID'', ''FullName'', ''Email'', ''Phone'',
                                     ''RoleID'', ''BranchID'', ''GraduationYear'', ''CurrentYear'',
                                     ''CreatedAt''] newRow]"
      and d: "db w1 = (db (logged Begin w))\<lparr>admins := admins (db (logged Begin w)) @ [newRow]\<rparr>"
      and i: "col newRow ''AdminID'' = JNum (adminSeq (logged Begin w))"
    obtain rows w2 where mk: "markCodeUsed w1 (JNum (adminSeq w)) (col ic ''CodeID'') = (rows, w2)"
      by (cases "markCodeUsed w1 (JNum (adminSeq w)) (col ic ''CodeID'')")
    note f = markCodeUsed_facts [OF mk]
    show ?thesis
    proof (cases "rows = []")
      case True
      with assms ins r i mk show ?thesis
        by (auto simp: createAdminWithTransaction_def transactionBody_def Let_def vs_def
              col_select adminSeq_logged)
    next
      case False
      with assms ins r i mk d f now1 show ?thesis
        by (auto simp: createAdminWithTransaction_def transactionBody_def Let_def vs_def
              col_select adminSeq_logged db_logged sql_param_def)
    qed
  qed
qed

text \<open>
  The theorem at work on \<open>world0\<close>. For an invitation code identifier that no row has,
  the INSERT succeeds and the UPDATE finds nothing: given only that the call failed, the
  theorem yields that the inserted row is gone again. For the identifier of the eligible
  code the call succeeds: given only that, the theorem yields that the table of invitation
  codes is the old one with that code marked as used by admin 2, the identifier the
  sequence had in store.
\<close>

theorem createAdminWithTransaction_atomic_witness:
  "fst (createAdminWithTransaction world0
          (setcol ''passwordHash'' (JStr ''$2b$12$SecurePass@123'') candidate0)
          [(''CodeID'', JNum 99)])
     = Inl (createServerError TRANSACTION_FAILED ''Failed to mark invitation code as used'')
   \<and> db (snd (createAdminWithTransaction world0
          (setcol ''passwordHash'' (JStr ''$2b$12$SecurePass@123'') candidate0)
          [(''CodeID'', JNum 99)])) = db world0
   \<and> fst (createAdminWithTransaction world0
          (setcol ''passwordHash'' (JStr ''$2b$12$SecurePass@123'') candidate0)
          [(''CodeID'', JNum 7)])
     = Inr [(''AdminID'', JNum 2), (''StudentID'', JStr ''CS2024001''),
            (''FullName'', JStr ''John Doe''), (''Email'', JStr ''john@example.com''),
            (''Phone'', JStr ''+919876543210''), (''RoleID'', JNum 1), (''BranchID'', JNum 1),
            (''GraduationYear'', JNum 2026), (''CurrentYear'', JNull), (''CreatedAt'', JDate 1000)]
   \<and> codes (db (snd (createAdminWithTransaction world0
          (setcol ''passwordHash'' (JStr ''$2b$12$SecurePass@123'') candidate0)
          [(''CodeID'', JNum 7)])))
     = map (\<lambda>r. if sql_eq (col r ''CodeID'') (JNum 7)
                then setcol ''UpdatedAt'' (JDate 1000)
                       (setcol ''UsedByAdminID'' (JNum 2) (setcol ''IsUsed'' (JBool True) r))
                else r) (codes (db world0))"
proof -
  let ?lost = "createAdminWithTransaction world0
          (setcol ''passwordHash'' (JStr ''$2b$12$SecurePass@123'') candidate0)
          [(''CodeID'', JNum 99)]"
  let ?done = "createAdminWithTransaction world0
          (setcol ''passwordHash'' (JStr ''$2b$12$SecurePass@123'') candidate0)
          [(''CodeID'', JNum 7)]"
  have failed: "fst ?lost
     = Inl (createServerError TRANSACTION_FAILED ''Failed to mark invitation code as used'')"
    by code_simp
  have "?lost = (fst ?lost, snd ?lost)"
    by simp
  from createAdminWithTransaction_atomic [OF this] failed
  have unchanged: "db (snd ?lost) = db world0"
    by auto
  have created: "fst ?done
     = Inr [(''AdminID'', JNum 2), (''StudentID'', JStr ''CS2024001''),
            (''FullName'', JStr ''John Doe''), (''Email'', JStr ''john@example.com''),
            (''Phone'', JStr ''+919876543210''), (''RoleID'', JNum 1), (''BranchID'', JNum 1),
            (''GraduationYear'', JNum 2026), (''CurrentYear'', JNull), (''CreatedAt'', JDate 1000)]"
    by code_simp
  have given: "col [(''CodeID'', JNum 7)] ''CodeID'' = JNum 7" "adminSeq world0 = 2"
    "now world0 = 1000"
    by (simp_all add: col_def world0_def)
  have "?done = (fst ?done, snd ?done)"
    by simp
  from createAdminWithTransaction_atomic [OF this] created given
  have marked: "codes (db (snd ?done))
     = map (\<lambda>r. if sql_eq (col r ''CodeID'') (JNum 7)
                then setcol ''UpdatedAt'' (JDate 1000)
                       (setcol ''UsedByAdminID'' (JNum 2) (setcol ''IsUsed'' (JBool True) r))
                else r) (codes (db world0))"
    by auto
  from failed unchanged created marked show ?thesis
    by simp
qed

text \<open>
  Two more runs on \<open>world0\<close>. With a student identifier that is already taken, the INSERT
  is rejected by the store and the call fails the same way. And the step does not look at
  the used flag, which is the business of the ledger check earlier in onboarding: run on
  its own on the code that admin 1 has used, it succeeds and marks the code for admin 2.
\<close>

lemma createAdminWithTransaction_runs:
  "createAdminWithTransaction world0
      (setcol ''passwordHash'' (JStr ''$2b$12$SecurePass@123'')
         (setcol ''studentID'' (JStr ''CS2023007'') candidate0))
      [(''CodeID'', JNum 7)]
     = (Inl (createServerError TRANSACTION_FAILED
               ''duplicate key value violates unique constraint on StudentID''),
        world0\<lparr>adminSeq := 3, trace := [Begin, InsertAdmin, Rollback]\<rparr>)
   \<and> map (\<lambda>r. col r ''UsedByAdminID'')
         (codes (db (snd (createAdminWithTransaction world0
            (setcol ''passwordHash'' (JStr ''$2b$12$SecurePass@123'') candidate0)
            [(''CodeID'', JNum 9)]))))
     = [JNull, JNum 1, JNum 2, JNull]"
  by code_simp

section \<open>The read-only steps\<close>

lemma list_ex_filter: "(filter P xs \<noteq> []) = list_ex P xs"
  by (induction xs) auto

lemma checkStudentIDExists_eq:
  "checkStudentIDExists w v = (studentIDTaken (db w) v, logged SelectStudentID w)"
  by (simp add: checkStudentIDExists_def studentIDTaken_def list_ex_filter [symmetric])

lemma checkEmailExists_eq:
  "checkEmailExists w v = (emailTaken (db w) v, logged SelectEmail w)"
  by (simp add: checkEmailExists_def emailTaken_def list_ex_filter [symmetric])

lemma validateInvitationCode_eq:
  "validateInvitationCode w code = (fst (validateInvitationCode w code), logged SelectInvitation w)"
  by (simp add: validateInvitationCode_def)

lemma validateRole_found:
  assumes "list_ex (\<lambda>r. sql_eq (col r ''RoleID'') v) (roles (db w))"
  shows "\<exists>role. validateRole w v = (Inr role, logged SelectRole w)"
proof -
  from assms have "filter (\<lambda>r. sql_eq (col r ''RoleID'') v) (roles (db w)) \<noteq> []"
    by (simp add: list_ex_filter)
  then show ?thesis
    by (cases "filter (\<lambda>r. sql_eq (col r ''RoleID'') v) (roles (db w))")
       (simp_all add: validateRole_def)
qed

lemma validateBranch_missing:
  "truthy b \<Longrightarrow> \<not> branchExists (db w) b \<Longrightarrow>
     validateBranch w b = (Inl (createValidationError INVALID_BRANCH ''Invalid Branch ID''), logged SelectBranch w)"
  by (simp add: validateBranch_def branchExists_def list_ex_filter [symmetric])

lemma validateBranch_found:
  assumes "truthy b" "branchExists (db w) b"
  shows "\<exists>x. validateBranch w b = (Inr x, logged SelectBranch w)"
proof -
  from assms have "filter (\<lambda>r. sql_eq (col r ''BranchID'') b) (branches (db w)) \<noteq> []"
    by (simp add: list_ex_filter branchExists_def)
  then show ?thesis using assms
    by (cases "filter (\<lambda>r. sql_eq (col r ''BranchID'') b) (branches (db w))")
       (simp_all add: validateBranch_def)
qed

lemma invitationRows_role:
  assumes "ic \<in> set (invitationRows d code)"
  shows "list_ex (\<lambda>r. sql_eq (col r ''RoleID'') (col ic ''RoleID'')) (roles d)"
proof -
  from assms obtain icRow r where r: "r \<in> set (roles d)"
    and j: "sql_eq (col icRow ''RoleID'') (col r ''RoleID'')"
    and ic: "ic = select [''CodeID'', ''Code'', ''RoleID'', ''IsActive'', ''IsUsed'', ''ExpiresAt''] icRow
                  @ [(''RoleName'', col r ''RoleName'')]"
    by (auto simp: invitationRows_def)
  have "col ic ''RoleID'' = col icRow ''RoleID''"
    unfolding ic by (simp add: col_def select_def)
  with j have "sql_eq (col r ''RoleID'') (col ic ''RoleID'')"
    by (auto simp: sql_eq_def)
  with r show ?thesis
    by (auto simp: list_ex_iff)
qed

lemma validateInvitationCode_Inr:
  assumes "fst (validateInvitationCode w code) = Inr ic"
  shows "ic \<in> set (invitationRows (db w) code)"
  using assms
  by (auto simp: validateInvitationCode_def split: list.splits if_splits)

lemma invitationRows_none:
  "\<not> list_ex (\<lambda>r. sql_eq (col r ''Code'') code) (codes d) \<Longrightarrow> invitationRows d code = []"
  by (simp add: invitationRows_def list_ex_filter [symmetric])

section \<open>The invitation ledger check reports one outcome, in a fixed order\<close>

text \<open>
  Claim C2. For every invitation code and every store, \<^verbatim>\<open>validateInvitationCode\<close>
  reports exactly one of five outcomes, decided in the order existence, active flag, used
  flag, expiry. Existence is that of a row of the lookup, the code joined with its role: no
  ledger row with this code means no such row, and the outcome is
  \<^verbatim>\<open>INVALID_INVITATION_CODE\<close>. For the first row \<open>ic\<close> of the lookup: a false active
  flag gives \<^verbatim>\<open>INVITATION_CODE_INACTIVE\<close> whatever the used flag and the expiry are; an
  active and used code gives \<^verbatim>\<open>INVITATION_CODE_ALREADY_USED\<close> whatever the expiry; an
  active, unused code whose expiry is set and lies before the current time gives
  \<^verbatim>\<open>INVITATION_CODE_EXPIRED\<close>; otherwise the row itself is returned. The four error
  codes are pairwise different, so the five outcomes exclude one another. The check does not
  write to the store.
\<close>

theorem validateInvitationCode_order:
  "(\<not> list_ex (\<lambda>r. sql_eq (col r ''Code'') code) (codes (db w)) \<longrightarrow>
      invitationRows (db w) code = [])
   \<and> (invitationRows (db w) code = [] \<longrightarrow>
      fst (validateInvitationCode w code)
        = Inl (createNotFoundError INVALID_INVITATION_CODE ''Invitation code does not exist''))
   \<and> (invitationRows (db w) code = ic # rest \<and> \<not> truthy (col ic ''IsActive'') \<longrightarrow>
      fst (validateInvitationCode w code)
        = Inl (createValidationError INVITATION_CODE_INACTIVE ''Invitation code is inactive''))
   \<and> (invitationRows (db w) code = ic # rest \<and> truthy (col ic ''IsActive'')
        \<and> truthy (col ic ''IsUsed'') \<longrightarrow>
      fst (validateInvitationCode w code)
        = Inl (createValidationError INVITATION_CODE_ALREADY_USED
                 ''Invitation code has already been used''))
   \<and> (invitationRows (db w) code = ic # rest \<and> truthy (col ic ''IsActive'')
        \<and> \<not> truthy (col ic ''IsUsed'')
        \<and> truthy (col ic ''ExpiresAt'') \<and> before_now (col ic ''ExpiresAt'') (now w) \<longrightarrow>
      fst (validateInvitationCode w code)
        = Inl (createValidationError INVITATION_CODE_EXPIRED ''Invitation code has expired''))
   \<and> (invitationRows (db w) code = ic # rest \<and> truthy (col ic ''IsActive'')
        \<and> \<not> truthy (col ic ''IsUsed'')
        \<and> \<not> (truthy (col ic ''ExpiresAt'') \<and> before_now (col ic ''ExpiresAt'') (now w)) \<longrightarrow>
      fst (validateInvitationCode w code) = Inr ic)
   \<and> (fst (validateInvitationCode w code)
         = Inl (createNotFoundError INVALID_INVITATION_CODE ''Invitation code does not exist'')
      \<or> fst (validateInvitationCode w code)
         = Inl (createValidationError INVITATION_CODE_INACTIVE ''Invitation code is inactive'')
      \<or> fst (validateInvitationCode w code)
         = Inl (createValidationError INVITATION_CODE_ALREADY_USED
                  ''Invitation code has already been used'')
      \<or> fst (validateInvitationCode w code)
         = Inl (createValidationError INVITATION_CODE_EXPIRED ''Invitation code has expired'')
      \<or> (\<exists>row. fst (validateInvitationCode w code) = Inr row))
   \<and> db (snd (validateInvitationCode w code)) = db w"
  by (auto simp: validateInvitationCode_def invitationRows_none db_logged split: list.splits)

text \<open>
  On \<open>world0\<close>: an unknown code; a code that is inactive, used and expired is reported
  inactive; one that is active, used and expired is reported used; one that is active,
  unused and expired is reported expired; the remaining one is eligible.
\<close>

theorem validateInvitationCode_order_witness:
  "fst (validateInvitationCode world0 (JStr ''NOSUCHCODE1''))
     = Inl (createNotFoundError INVALID_INVITATION_CODE ''Invitation code does not exist'')
   \<and> fst (validateInvitationCode world0 (JStr ''CLOSED2023AAA''))
     = Inl (createValidationError INVITATION_CODE_INACTIVE ''Invitation code is inactive'')
   \<and> fst (validateInvitationCode world0 (JStr ''SPENT2023BBB''))
     = Inl (createValidationError INVITATION_CODE_ALREADY_USED
              ''Invitation code has already been used'')
   \<and> fst (validateInvitationCode world0 (JStr ''STALE2023CCC''))
     = Inl (createValidationError INVITATION_CODE_EXPIRED ''Invitation code has expired'')
   \<and> fst (validateInvitationCode world0 (JStr ''INVITE2024ABC''))
     = Inr [(''CodeID'', JNum 7), (''Code'', JStr ''INVITE2024ABC''), (''RoleID'', JNum 1),
            (''IsActive'', JBool True), (''IsUsed'', JBool False), (''ExpiresAt'', JNull),
            (''RoleName'', JStr ''Organizer'')]"
proof -
  let ?closed = "[(''CodeID'', JNum 8), (''Code'', JStr ''CLOSED2023AAA''), (''RoleID'', JNum 1),
            (''IsActive'', JBool False), (''IsUsed'', JBool True), (''ExpiresAt'', JDate 10),
            (''RoleName'', JStr ''Organizer'')]"
  let ?spent = "[(''CodeID'', JNum 9), (''Code'', JStr ''SPENT2023BBB''), (''RoleID'', JNum 2),
            (''IsActive'', JBool True), (''IsUsed'', JBool True), (''ExpiresAt'', JDate 10),
            (''RoleName'', JStr ''SuperAdmin'')]"
  let ?stale = "[(''CodeID'', JNum 10), (''Code'', JStr ''STALE2023CCC''), (''RoleID'', JNum 1),
            (''IsActive'', JBool True), (''IsUsed'', JBool False), (''ExpiresAt'', JDate 10),
            (''RoleName'', JStr ''Organizer'')]"
  let ?fresh = "[(''CodeID'', JNum 7), (''Code'', JStr ''INVITE2024ABC''), (''RoleID'', JNum 1),
            (''IsActive'', JBool True), (''IsUsed'', JBool False), (''ExpiresAt'', JNull),
            (''RoleName'', JStr ''Organizer'')]"
  have none: "\<not> list_ex (\<lambda>r. sql_eq (col r ''Code'') (JStr ''NOSUCHCODE1'')) (codes (db world0))"
    by code_simp
  have closed: "invitationRows (db world0) (JStr ''CLOSED2023AAA'') = ?closed # []"
    "\<not> truthy (col ?closed ''IsActive'')"
    "truthy (col ?closed ''IsUsed'')" "before_now (col ?closed ''ExpiresAt'') (now world0)"
    by code_simp+
  have spent: "invitationRows (db world0) (JStr ''SPENT2023BBB'') = ?spent # []"
    "truthy (col ?spent ''IsActive'')" "truthy (col ?spent ''IsUsed'')"
    "before_now (col ?spent ''ExpiresAt'') (now world0)"
    by code_simp+
  have stale: "invitationRows (db world0) (JStr ''STALE2023CCC'') = ?stale # []"
    "truthy (col ?stale ''IsActive'')" "\<not> truthy (col ?stale ''IsUsed'')"
    "truthy (col ?stale ''ExpiresAt'')" "before_now (col ?stale ''ExpiresAt'') (now world0)"
    by code_simp+
  have fresh: "invitationRows (db world0) (JStr ''INVITE2024ABC'') = ?fresh # []"
    "truthy (col ?fresh ''IsActive'')" "\<not> truthy (col ?fresh ''IsUsed'')"
    "\<not> truthy (col ?fresh ''ExpiresAt'')"
    by code_simp+
  have a: "fst (validateInvitationCode world0 (JStr ''NOSUCHCODE1''))
     = Inl (createNotFoundError INVALID_INVITATION_CODE ''Invitation code does not exist'')"
    using validateInvitationCode_order [of "JStr ''NOSUCHCODE1''" world0] none by simp
  have b: "fst (validateInvitationCode world0 (JStr ''CLOSED2023AAA''))
     = Inl (createValidationError INVITATION_CODE_INACTIVE ''Invitation code is inactive'')"
    using validateInvitationCode_order [of "JStr ''CLOSED2023AAA''" world0 ?closed "[]"] closed
    by simp
  have c: "fst (validateInvitationCode world0 (JStr ''SPENT2023BBB''))
     = Inl (createValidationError INVITATION_CODE_ALREADY_USED
              ''Invitation code has already been used'')"
    using validateInvitationCode_order [of "JStr ''SPENT2023BBB''" world0 ?spent "[]"] spent
    by simp
  have d: "fst (validateInvitationCode world0 (JStr ''STALE2023CCC''))
     = Inl (createValidationError INVITATION_CODE_EXPIRED ''Invitation code has expired'')"
    using validateInvitationCode_order [of "JStr ''STALE2023CCC''" world0 ?stale "[]"] stale
    by simp
  have e: "fst (validateInvitationCode world0 (JStr ''INVITE2024ABC'')) = Inr ?fresh"
    using validateInvitationCode_order [of "JStr ''INVITE2024ABC''" world0 ?fresh "[]"] fresh
    by simp
  from a b c d e show ?thesis
    by simp
qed

section \<open>The onboarding orchestrator stops at the first failing step\<close>

text \<open>
  Claim C3. When the invitation code of a candidate is eligible (the ledger check returns
  its row \<open>ic\<close>) and the submitted \<^verbatim>\<open>roleID\<close> is not strictly equal to the role bound
  to the code, onboarding fails with \<^verbatim>\<open>INVALID_ROLE\<close> and a message that names the
  expected role. Nothing is asked of the Role table, so this holds also when the submitted
  role exists there. The only effect is the lookup of the invitation code: the tables are
  untouched.
\<close>

theorem onboardAdmin_role_mismatch:
  assumes "fst (validateInvitationCode w (property c ''invitationCode'')) = Inr ic"
    and "\<not> strict_eq (property c ''roleID'') (col ic ''RoleID'')"
  shows "onboardAdmin lib w c =
           (Inl (createValidationError INVALID_ROLE
                   (''RoleID must match invitation code (expected: ''
                      @ template (col ic ''RoleID'') @ '')'')),
            w\<lparr>trace := trace w @ [SelectInvitation]\<rparr>)"
proof -
  have "validateInvitationCode w (property c ''invitationCode'')
          = (Inr ic, logged SelectInvitation w)"
    using assms(1) validateInvitationCode_eq [of w "property c ''invitationCode''"] by simp
  with assms(2) show ?thesis
    by (simp add: onboardAdmin_def logged_def)
qed

text \<open>
  On \<open>world0\<close>: role 2 exists in the Role table, the invitation code is bound to role 1.
\<close>

theorem onboardAdmin_role_mismatch_witness:
  "list_ex (\<lambda>r. sql_eq (col r ''RoleID'') (JNum 2)) (roles (db world0))
   \<and> onboardAdmin marker_bcrypt world0 (setcol ''roleID'' (JNum 2) candidate0)
       = (Inl (createValidationError INVALID_ROLE
                 ''RoleID must match invitation code (expected: 1)''),
          world0\<lparr>trace := [SelectInvitation]\<rparr>)"
proof -
  let ?c = "setcol ''roleID'' (JNum 2) candidate0"
  let ?ic = "[(''CodeID'', JNum 7), (''Code'', JStr ''INVITE2024ABC''), (''RoleID'', JNum 1),
            (''IsActive'', JBool True), (''IsUsed'', JBool False), (''ExpiresAt'', JNull),
            (''RoleName'', JStr ''Organizer'')]"
  have eligible: "fst (validateInvitationCode world0 (property ?c ''invitationCode'')) = Inr ?ic"
    by code_simp
  have differs: "\<not> strict_eq (property ?c ''roleID'') (col ?ic ''RoleID'')"
    by code_simp
  have known: "list_ex (\<lambda>r. sql_eq (col r ''RoleID'') (JNum 2)) (roles (db world0))"
    by code_simp
  have expected: "template (col ?ic ''RoleID'') = ''1''"
    by code_simp
  have "trace world0 = []"
    by (simp add: world0_def)
  with onboardAdmin_role_mismatch [OF eligible differs, of marker_bcrypt] known expected
  show ?thesis
    by simp
qed

text \<open>
  Claim C4. \<^verbatim>\<open>onboardAdmin\<close> runs its steps in one fixed order and stops at the first
  that fails; the trace of effects shows how far it got.
  \<^enum> A failing invitation check is the result, after that lookup alone.
  \<^enum> An eligible code with a different role: \<^verbatim>\<open>INVALID_ROLE\<close>, no further effect.
  \<^enum> Then a taken student identifier: \<^verbatim>\<open>DUPLICATE_STUDENT_ID\<close>, whether or not the
    email is taken too; the email is not looked up.
  \<^enum> Then a taken email: \<^verbatim>\<open>DUPLICATE_EMAIL\<close>.
  \<^enum> Then the role is looked up; after steps 1 and 2 this lookup always finds it.
  \<^enum> Then, only when a branch is supplied, the branch is looked up: \<^verbatim>\<open>INVALID_BRANCH\<close>
    if it is missing.
  \<^enum> Then the password is hashed: \<^verbatim>\<open>INTERNAL_ERROR\<close> if bcrypt rejects it.
  \<^enum> Then, and only then, the atomic creation runs, on the candidate extended with the
    digest and on the row of the invitation code.
\<close>

theorem onboardAdmin_order:
  "(fst (validateInvitationCode w (property c ''invitationCode'')) = Inl e \<longrightarrow>
      onboardAdmin lib w c = (Inl e, w\<lparr>trace := trace w @ [SelectInvitation]\<rparr>))
   \<and> (fst (validateInvitationCode w (property c ''invitationCode'')) = Inr ic
        \<and> \<not> strict_eq (property c ''roleID'') (col ic ''RoleID'') \<longrightarrow>
      onboardAdmin lib w c =
        (Inl (createValidationError INVALID_ROLE
                (''RoleID must match invitation code (expected: ''
                   @ template (col ic ''RoleID'') @ '')'')),
         w\<lparr>trace := trace w @ [SelectInvitation]\<rparr>))
   \<and> (fst (validateInvitationCode w (property c ''invitationCode'')) = Inr ic
        \<and> strict_eq (property c ''roleID'') (col ic ''RoleID'')
        \<and> studentIDTaken (db w) (property c ''studentID'') \<longrightarrow>
      onboardAdmin lib w c =
        (Inl (createConflictError DUPLICATE_STUDENT_ID ''Student ID already exists''),
         w\<lparr>trace := trace w @ [SelectInvitation, SelectStudentID]\<rparr>))
   \<and> (fst (validateInvitationCode w (property c ''invitationCode'')) = Inr ic
        \<and> strict_eq (property c ''roleID'') (col ic ''RoleID'')
        \<and> \<not> studentIDTaken (db w) (property c ''studentID'')
        \<and> emailTaken (db w) (property c ''email'') \<longrightarrow>
      onboardAdmin lib w c =
        (Inl (createConflictError DUPLICATE_EMAIL ''Email already registered''),
         w\<lparr>trace := trace w @ [SelectInvitation, SelectStudentID, SelectEmail]\<rparr>))
   \<and> (fst (validateInvitationCode w (property c ''invitationCode'')) = Inr ic
        \<and> strict_eq (property c ''roleID'') (col ic ''RoleID'')
        \<and> \<not> studentIDTaken (db w) (property c ''studentID'')
        \<and> \<not> emailTaken (db w) (property c ''email'')
        \<and> truthy (property c ''branchID'')
        \<and> \<not> branchExists (db w) (property c ''branchID'') \<longrightarrow>
      onboardAdmin lib w c =
        (Inl (createValidationError INVALID_BRANCH ''Invalid Branch ID''),
         w\<lparr>trace := trace w @ [SelectInvitation, SelectStudentID, SelectEmail, SelectRole,
                                 SelectBranch]\<rparr>))
   \<and> (fst (validateInvitationCode w (property c ''invitationCode'')) = Inr ic
        \<and> strict_eq (property c ''roleID'') (col ic ''RoleID'')
        \<and> \<not> studentIDTaken (db w) (property c ''studentID'')
        \<and> \<not> emailTaken (db w) (property c ''email'')
        \<and> (truthy (property c ''branchID'') \<longrightarrow> branchExists (db w) (property c ''branchID''))
        \<and> bcrypt_hash lib (property c ''password'') 12 = Inl m \<longrightarrow>
      onboardAdmin lib w c =
        (Inl (createServerError INTERNAL_ERROR ''Error hashing password''),
         w\<lparr>trace := trace w @ [SelectInvitation, SelectStudentID, SelectEmail, SelectRole]
                       @ (if truthy (property c ''branchID'') then [SelectBranch] else [])
                       @ [BcryptHash]\<rparr>))
   \<and> (fst (validateInvitationCode w (property c ''invitationCode'')) = Inr ic
        \<and> strict_eq (property c ''roleID'') (col ic ''RoleID'')
        \<and> \<not> studentIDTaken (db w) (property c ''studentID'')
        \<and> \<not> emailTaken (db w) (property c ''email'')
        \<and> (truthy (property c ''branchID'') \<longrightarrow> branchExists (db w) (property c ''branchID''))
        \<and> bcrypt_hash lib (property c ''password'') 12 = Inr h \<longrightarrow>
      onboardAdmin lib w c =
        createAdminWithTransaction
          (w\<lparr>trace := trace w @ [SelectInvitation, SelectStudentID, SelectEmail, SelectRole]
                        @ (if truthy (property c ''branchID'') then [SelectBranch] else [])
                        @ [BcryptHash]\<rparr>)
          (setcol ''passwordHash'' (JStr h) c) ic)"
proof -
  let ?code = "property c ''invitationCode''"
  have v: "validateInvitationCode w ?code = (fst (validateInvitationCode w ?code), w\<lparr>trace := trace w @ [SelectInvitation]\<rparr>)"
    using validateInvitationCode_eq [of w ?code] by (simp add: logged_def)
  have fail: "fst (validateInvitationCode w ?code) = Inl e \<longrightarrow>
      onboardAdmin lib w c = (Inl e, w\<lparr>trace := trace w @ [SelectInvitation]\<rparr>)"
    using v by (auto simp: onboardAdmin_def)
  have rest: ?thesis if ok: "fst (validateInvitationCode w ?code) = Inr ic"
  proof (cases "strict_eq (property c ''roleID'') (col ic ''RoleID'')")
    case False
    with ok v show ?thesis
      by (simp add: onboardAdmin_def)
  next
    case True
    let ?w4 = "w\<lparr>trace := trace w @ [SelectInvitation, SelectStudentID, SelectEmail, SelectRole]\<rparr>"
    have "ic \<in> set (invitationRows (db w) ?code)"
      using ok by (rule validateInvitationCode_Inr)
    then have "list_ex (\<lambda>r. sql_eq (col r ''RoleID'') (col ic ''RoleID'')) (roles (db w))"
      by (rule invitationRows_role)
    moreover have "property c ''roleID'' = col ic ''RoleID''"
      using True by (cases "property c ''roleID''"; cases "col ic ''RoleID''") auto
    ultimately have "list_ex (\<lambda>r. sql_eq (col r ''RoleID'') (property c ''roleID''))
        (roles (db (w\<lparr>trace := trace w @ [SelectInvitation, SelectStudentID, SelectEmail]\<rparr>)))"
      by simp
    from validateRole_found [OF this]
    obtain role where role: "validateRole (w\<lparr>trace := trace w @ [SelectInvitation, SelectStudentID, SelectEmail]\<rparr>)
        (property c ''roleID'') = (Inr role, ?w4)"
      by (auto simp: logged_def)
    have h: "hashPassword lib w' (property c ''password'')
            = (case bcrypt_hash lib (property c ''password'') 12 of
                 Inr h \<Rightarrow> Inr (JStr h)
               | Inl m \<Rightarrow> Inl (createServerError INTERNAL_ERROR ''Error hashing password''),
               w'\<lparr>trace := trace w' @ [BcryptHash]\<rparr>)" for w'
      by (simp add: hashPassword_def logged_def)
    show ?thesis
    proof (cases "truthy (property c ''branchID'')")
      case nb: False
      with ok v True role h show ?thesis
        by (simp add: onboardAdmin_def checkStudentIDExists_eq checkEmailExists_eq logged_def)
    next
      case b: True
      show ?thesis
      proof (cases "branchExists (db w) (property c ''branchID'')")
        case False
        with b have "validateBranch ?w4 (property c ''branchID'')
            = (Inl (createValidationError INVALID_BRANCH ''Invalid Branch ID''), logged SelectBranch ?w4)"
          by (intro validateBranch_missing) simp_all
        with ok v True role h b False show ?thesis
          by (simp add: onboardAdmin_def checkStudentIDExists_eq checkEmailExists_eq logged_def)
      next
        case e: True
        with b have "\<exists>x. validateBranch ?w4 (property c ''branchID'') = (Inr x, logged SelectBranch ?w4)"
          by (intro validateBranch_found) simp_all
        then obtain x where "validateBranch ?w4 (property c ''branchID'') = (Inr x, logged SelectBranch ?w4)"
          by blast
        with ok v True role h b e show ?thesis
          by (simp add: onboardAdmin_def checkStudentIDExists_eq checkEmailExists_eq logged_def)
      qed
    qed
  qed
  show ?thesis
  proof (cases "fst (validateInvitationCode w ?code)")
    case (Inl a)
    with fail show ?thesis by simp
  next
    case (Inr a)
    with rest show ?thesis
      by (cases "a = ic") (simp_all add: fail)
  qed
qed

text \<open>
  On \<open>world0\<close>: a candidate whose student identifier and email are both taken fails with
  \<^verbatim>\<open>DUPLICATE_STUDENT_ID\<close> after two lookups; the candidate of the API documentation
  goes through all steps in order.
\<close>

theorem onboardAdmin_order_witness:
  "studentIDTaken (db world0) (JStr ''CS2023007'')
   \<and> emailTaken (db world0) (JStr ''asha@example.com'')
   \<and> onboardAdmin marker_bcrypt world0
         (setcol ''email'' (JStr ''asha@example.com'')
            (setcol ''studentID'' (JStr ''CS2023007'') candidate0))
       = (Inl (createConflictError DUPLICATE_STUDENT_ID ''Student ID already exists''),
          world0\<lparr>trace := [SelectInvitation, SelectStudentID]\<rparr>)
   \<and> trace (snd (onboardAdmin marker_bcrypt world0 candidate0))
       = [SelectInvitation, SelectStudentID, SelectEmail, SelectRole, SelectBranch, BcryptHash,
          Begin, InsertAdmin, UpdateCode, Commit]"
proof -
  let ?c = "setcol ''email'' (JStr ''asha@example.com'')
              (setcol ''studentID'' (JStr ''CS2023007'') candidate0)"
  let ?ic = "[(''CodeID'', JNum 7), (''Code'', JStr ''INVITE2024ABC''), (''RoleID'', JNum 1),
            (''IsActive'', JBool True), (''IsUsed'', JBool False), (''ExpiresAt'', JNull),
            (''RoleName'', JStr ''Organizer'')]"
  have t0: "trace world0 = []"
    by (simp add: world0_def)
  have eligible: "fst (validateInvitationCode world0 (property ?c ''invitationCode'')) = Inr ?ic"
    by code_simp
  have same: "strict_eq (property ?c ''roleID'') (col ?ic ''RoleID'')"
    by code_simp
  have sid: "property ?c ''studentID'' = JStr ''CS2023007''"
    and mail: "property ?c ''email'' = JStr ''asha@example.com''"
    by code_simp+
  have taken: "studentIDTaken (db world0) (JStr ''CS2023007'')"
    "emailTaken (db world0) (JStr ''asha@example.com'')"
    by code_simp+
  have both: "onboardAdmin marker_bcrypt world0 ?c
       = (Inl (createConflictError DUPLICATE_STUDENT_ID ''Student ID already exists''),
          world0\<lparr>trace := [SelectInvitation, SelectStudentID]\<rparr>)"
    using onboardAdmin_order [of world0 ?c _ marker_bcrypt ?ic] eligible same sid taken t0
    by simp
  have eligible0: "fst (validateInvitationCode world0 (property candidate0 ''invitationCode'')) = Inr ?ic"
    by code_simp
  have pre0: "strict_eq (property candidate0 ''roleID'') (col ?ic ''RoleID'')"
    "\<not> studentIDTaken (db world0) (property candidate0 ''studentID'')"
    "\<not> emailTaken (db world0) (property candidate0 ''email'')"
    "truthy (property candidate0 ''branchID'')"
    "branchExists (db world0) (property candidate0 ''branchID'')"
    by code_simp+
  have hashed: "bcrypt_hash marker_bcrypt (property candidate0 ''password'') 12
                  = Inr ''$2b$12$SecurePass@123''"
    by (simp add: marker_bcrypt_def candidate0_def property_def)
  have "onboardAdmin marker_bcrypt world0 candidate0
          = createAdminWithTransaction
              (world0\<lparr>trace := [SelectInvitation, SelectStudentID, SelectEmail, SelectRole,
                                  SelectBranch, BcryptHash]\<rparr>)
              (setcol ''passwordHash'' (JStr ''$2b$12$SecurePass@123'') candidate0) ?ic"
    using onboardAdmin_order [of world0 candidate0 _ marker_bcrypt ?ic _ "''$2b$12$SecurePass@123''"]
      eligible0 pre0 hashed t0
    by simp
  moreover have "trace (snd (createAdminWithTransaction
              (world0\<lparr>trace := [SelectInvitation, SelectStudentID, SelectEmail, SelectRole,
                                  SelectBranch, BcryptHash]\<rparr>)
              (setcol ''passwordHash'' (JStr ''$2b$12$SecurePass@123'') candidate0) ?ic))
        = [SelectInvitation, SelectStudentID, SelectEmail, SelectRole, SelectBranch, BcryptHash,
          Begin, InsertAdmin, UpdateCode, Commit]"
    by code_simp
  ultimately show ?thesis
    using taken both by simp
qed

section \<open>What the caller gets back\<close>

lemma fst_select: "map fst (select cs r) = cs"
  by (simp add: select_def comp_def)

lemma createAdminWithTransaction_returns:
  assumes "fst (createAdminWithTransaction w adminData ic) = Inr a"
  shows "map fst a = [''AdminID'', ''StudentID'', ''FullName'', ''Email'', ''Phone'', ''RoleID'',
                      ''BranchID'', ''GraduationYear'', ''CurrentYear'', ''CreatedAt'']"
proof -
  define vs where "vs = [property adminData ''studentID'', property adminData ''fullName'',
             property adminData ''email'', property adminData ''passwordHash'',
             property adminData ''phone'', property adminData ''roleID'',
             (if truthy (property adminData ''branchID'') then property adminData ''branchID''
              else JNull),
             property adminData ''graduationYear'', property adminData ''invitationCode'']"
  obtain r w1 where ins: "insertAdminRow (logged Begin w) vs = (r, w1)"
    by (cases "insertAdminRow (logged Begin w) vs")
  from insertAdminRow_cases [OF ins] assms ins show ?thesis
    by (auto simp: createAdminWithTransaction_def transactionBody_def Let_def vs_def fst_select
             split: prod.splits if_splits)
qed

lemma onboardAdmin_returns:
  assumes "fst (onboardAdmin lib w c) = Inr a"
  shows "\<exists>w' adminData ic. fst (createAdminWithTransaction w' adminData ic) = Inr a"
  using assms
  by (auto simp: onboardAdmin_def Let_def split: prod.splits sum.splits if_splits)

lemma loginAdmin_returns:
  assumes "fst (loginAdmin lib w email password) = Inr a"
  shows "map fst a = [''AdminID'', ''StudentID'', ''Email'', ''FullName'', ''Phone'', ''RoleID'',
                      ''BranchID'', ''GraduationYear'', ''CurrentYear'', ''CreatedAt'']"
  using assms
  by (auto simp: loginAdmin_def loginBody_def Let_def split: prod.splits sum.splits if_splits list.splits)

lemma updateAdminRows_returns:
  assumes "updateAdminRows w sets i = (a # rest, w')"
  shows "map fst a = [''AdminID'', ''StudentID'', ''FullName'', ''Email'', ''Phone'', ''RoleID'',
                      ''BranchID'', ''GraduationYear'', ''CurrentYear'', ''CreatedAt'', ''UpdatedAt'']"
proof -
  from assms have "a \<in> set (fst (updateAdminRows w sets i))"
    by simp
  then show ?thesis
    by (auto simp: updateAdminRows_def Let_def fst_select)
qed

lemma updateWrite_returns:
  assumes "updateWrite lib w i u = (Inr a, w')"
  shows "map fst a = [''AdminID'', ''StudentID'', ''FullName'', ''Email'', ''Phone'', ''RoleID'',
                      ''BranchID'', ''GraduationYear'', ''CurrentYear'', ''CreatedAt'', ''UpdatedAt'']"
  using assms
  by (auto simp: updateWrite_def Let_def split: prod.splits sum.splits if_splits list.splits
           dest: updateAdminRows_returns)

lemma updateAdmin_returns:
  assumes "fst (updateAdmin lib w i u) = Inr a"
  shows "map fst a = [''AdminID'', ''StudentID'', ''FullName'', ''Email'', ''Phone'', ''RoleID'',
                      ''BranchID'', ''GraduationYear'', ''CurrentYear'', ''CreatedAt'', ''UpdatedAt'']"
  using assms
  by (auto simp: updateAdmin_def updateBody_def Let_def
           split: prod.splits sum.splits if_splits list.splits
           dest: updateWrite_returns)

text \<open>
  Claim C5. Whenever onboarding, login or a profile update succeeds, the object handed back
  by the service has exactly the properties listed below, and none of them is
  \<^verbatim>\<open>PasswordHash\<close>. For onboarding and the update they are the columns of the
  RETURNING clause; login reads the hash from the store to verify the password and builds
  its result from the other columns.
\<close>

theorem no_password_hash_returned:
  "(fst (onboardAdmin lib w c) = Inr a \<longrightarrow>
      map fst a = [''AdminID'', ''StudentID'', ''FullName'', ''Email'', ''Phone'', ''RoleID'',
                   ''BranchID'', ''GraduationYear'', ''CurrentYear'', ''CreatedAt'']
      \<and> ''PasswordHash'' \<notin> set (map fst a))
   \<and> (fst (loginAdmin lib w email password) = Inr a \<longrightarrow>
      map fst a = [''AdminID'', ''StudentID'', ''Email'', ''FullName'', ''Phone'', ''RoleID'',
                   ''BranchID'', ''GraduationYear'', ''CurrentYear'', ''CreatedAt'']
      \<and> ''PasswordHash'' \<notin> set (map fst a))
   \<and> (fst (updateAdmin lib w AdminID updateData) = Inr a \<longrightarrow>
      map fst a = [''AdminID'', ''StudentID'', ''FullName'', ''Email'', ''Phone'', ''RoleID'',
                   ''BranchID'', ''GraduationYear'', ''CurrentYear'', ''CreatedAt'', ''UpdatedAt'']
      \<and> ''PasswordHash'' \<notin> set (map fst a))"
proof (intro conjI impI)
  assume "fst (onboardAdmin lib w c) = Inr a"
  from onboardAdmin_returns [OF this] obtain w' adminData ic
    where "fst (createAdminWithTransaction w' adminData ic) = Inr a"
    by blast
  then show k: "map fst a = [''AdminID'', ''StudentID'', ''FullName'', ''Email'', ''Phone'', ''RoleID'',
                   ''BranchID'', ''GraduationYear'', ''CurrentYear'', ''CreatedAt'']"
    by (rule createAdminWithTransaction_returns)
  show "''PasswordHash'' \<notin> set (map fst a)"
    unfolding k by simp
next
  assume "fst (loginAdmin lib w email password) = Inr a"
  then show k: "map fst a = [''AdminID'', ''StudentID'', ''Email'', ''FullName'', ''Phone'', ''RoleID'',
                   ''BranchID'', ''GraduationYear'', ''CurrentYear'', ''CreatedAt'']"
    by (rule loginAdmin_returns)
  show "''PasswordHash'' \<notin> set (map fst a)"
    unfolding k by simp
next
  assume "fst (updateAdmin lib w AdminID updateData) = Inr a"
  then show k: "map fst a = [''AdminID'', ''StudentID'', ''FullName'', ''Email'', ''Phone'', ''RoleID'',
                   ''BranchID'', ''GraduationYear'', ''CurrentYear'', ''CreatedAt'', ''UpdatedAt'']"
    by (rule updateAdmin_returns)
  show "''PasswordHash'' \<notin> set (map fst a)"
    unfolding k by simp
qed

text \<open>On \<open>world0\<close>: the admin of the store logs in with the right password.\<close>

theorem no_password_hash_returned_witness:
  "fst (loginAdmin marker_bcrypt world0 (JStr ''asha@example.com'') (JStr ''OldPass@123''))
     = Inr [(''AdminID'', JNum 1), (''StudentID'', JStr ''CS2023007''),
            (''Email'', JStr ''asha@example.com''), (''FullName'', JStr ''Asha Rao''),
            (''Phone'', JStr ''+919800000001''), (''RoleID'', JNum 2), (''BranchID'', JNull),
            (''GraduationYear'', JNum 2025), (''CurrentYear'', JNull), (''CreatedAt'', JDate 100)]
   \<and> ''PasswordHash'' \<notin> set (map fst
         [(''AdminID'', JNum 1), (''StudentID'', JStr ''CS2023007''),
          (''Email'', JStr ''asha@example.com''), (''FullName'', JStr ''Asha Rao''),
          (''Phone'', JStr ''+919800000001''), (''RoleID'', JNum 2), (''BranchID'', JNull),
          (''GraduationYear'', JNum 2025), (''CurrentYear'', JNull), (''CreatedAt'', JDate 100)])"
proof -
  let ?a = "[(''AdminID'', JNum 1), (''StudentID'', JStr ''CS2023007''),
            (''Email'', JStr ''asha@example.com''), (''FullName'', JStr ''Asha Rao''),
            (''Phone'', JStr ''+919800000001''), (''RoleID'', JNum 2), (''BranchID'', JNull),
            (''GraduationYear'', JNum 2025), (''CurrentYear'', JNull), (''CreatedAt'', JDate 100)]"
  have ok: "fst (loginAdmin marker_bcrypt world0 (JStr ''asha@example.com'') (JStr ''OldPass@123''))
              = Inr ?a"
    by code_simp
  from no_password_hash_returned [of marker_bcrypt world0 _ ?a "JStr ''asha@example.com''"
         "JStr ''OldPass@123''"] ok
  show ?thesis
    by blast
qed

section \<open>Login failures look alike\<close>

lemma find_filter_eq: "List.find P xs = (case filter P xs of [] \<Rightarrow> None | x # _ \<Rightarrow> Some x)"
  by (induction xs) auto

lemma loginAdmin_unknown:
  assumes "\<not> emailTaken (db w) email"
  shows "loginAdmin lib w email password
           = (Inl (createValidationError INVALID_INPUT ''Invalid email or password''),
              w\<lparr>trace := trace w @ [SelectAdminByEmail]\<rparr>)"
proof -
  from assms have "filter (\<lambda>r. sql_eq (col r ''Email'') (sql_param email)) (admins (db w)) = []"
    by (simp add: emailTaken_def list_ex_filter [symmetric] sql_eq_param)
  then show ?thesis
    by (simp add: loginAdmin_def loginBody_def Let_def logged_def createValidationError_def)
qed

lemma loginAdmin_wrong_password:
  assumes "List.find (\<lambda>r. sql_eq (col r ''Email'') email) (admins (db w)) = Some account"
    and "col account ''PasswordHash'' = JStr h"
    and "\<not> compare lib p h"
  shows "loginAdmin lib w email (JStr p)
           = (Inl (createValidationError INVALID_INPUT ''Invalid email or password''),
              w\<lparr>trace := trace w @ [SelectAdminByEmail, BcryptCompare]\<rparr>)"
proof -
  from assms(1) obtain rest
    where "filter (\<lambda>r. sql_eq (col r ''Email'') (sql_param email)) (admins (db w)) = account # rest"
    by (auto simp: find_filter_eq sql_eq_param split: list.splits)
  with assms(2,3) show ?thesis
    by (simp add: loginAdmin_def loginBody_def Let_def logged_def createValidationError_def
          col_select)
qed

text \<open>
  Claim C6. Take a login with an email that no admin has, and a login with an email that
  some admin has (\<open>account\<close> is the row the login reads, the first with that email)
  together with a password that does not match the stored digest. Both fail with the same
  error: status 400, code \<^verbatim>\<open>INVALID_INPUT\<close>, message \<^verbatim>\<open>Invalid email or password\<close>.
  This holds for any two stores, any bcrypt and any password given with the unknown email.
  Only the result is the same: the second login has called bcrypt, the first has not.
\<close>

theorem loginAdmin_same_failure:
  assumes "\<not> emailTaken (db w1) email1"
    and "List.find (\<lambda>r. sql_eq (col r ''Email'') email2) (admins (db w2)) = Some account"
    and "col account ''PasswordHash'' = JStr h"
    and "\<not> compare lib password2 h"
  shows "fst (loginAdmin lib w1 email1 password1) = fst (loginAdmin lib w2 email2 (JStr password2))
       \<and> fst (loginAdmin lib w1 email1 password1)
           = Inl \<lparr>statusCode = 400, errorCode = INVALID_INPUT,
                  message = ''Invalid email or password''\<rparr>"
  using loginAdmin_unknown [OF assms(1), of lib password1]
    loginAdmin_wrong_password [OF assms(2,3,4)]
  by (simp add: createValidationError_def)

text \<open>On \<open>world0\<close>: an unknown email, and the known email with a wrong password.\<close>

theorem loginAdmin_same_failure_witness:
  "fst (loginAdmin marker_bcrypt world0 (JStr ''nonexistent@example.com'') (JStr ''SecurePass@123''))
     = fst (loginAdmin marker_bcrypt world0 (JStr ''asha@example.com'') (JStr ''WrongPass@123''))
   \<and> fst (loginAdmin marker_bcrypt world0 (JStr ''nonexistent@example.com'') (JStr ''SecurePass@123''))
     = Inl \<lparr>statusCode = 400, errorCode = INVALID_INPUT, message = ''Invalid email or password''\<rparr>"
proof -
  let ?account = "[(''AdminID'', JNum 1), (''StudentID'', JStr ''CS2023007''), (''FullName'', JStr ''Asha Rao''),
          (''Email'', JStr ''asha@example.com''), (''PasswordHash'', JStr ''$2b$12$OldPass@123''),
          (''Phone'', JStr ''+919800000001''), (''RoleID'', JNum 2), (''BranchID'', JNull),
          (''GraduationYear'', JNum 2025), (''InvitationCode'', JStr ''INVITE2023XYZ''),
          (''CurrentYear'', JNull), (''CreatedAt'', JDate 100), (''UpdatedAt'', JDate 100)]"
  have unknown: "\<not> emailTaken (db world0) (JStr ''nonexistent@example.com'')"
    by code_simp
  have known: "List.find (\<lambda>r. sql_eq (col r ''Email'') (JStr ''asha@example.com'')) (admins (db world0))
                 = Some ?account"
    by code_simp
  have stored: "col ?account ''PasswordHash'' = JStr ''$2b$12$OldPass@123''"
    by code_simp
  have wrong: "\<not> compare marker_bcrypt ''WrongPass@123'' ''$2b$12$OldPass@123''"
    by (simp add: marker_bcrypt_def)
  from loginAdmin_same_failure [OF unknown known stored wrong, of "JStr ''SecurePass@123''"]
  show ?thesis .
qed

section \<open>Profile update\<close>

text \<open>
  Claim C7, as the code has it. When the given \<^verbatim>\<open>AdminID\<close> is a number that the
  \<^verbatim>\<open>AdminID\<close> column can hold and no admin row has it, \<^verbatim>\<open>updateAdmin\<close> fails, for
  every patch, with the error built by \<^verbatim>\<open>createNotFoundError\<close>: status 404, message
  \<^verbatim>\<open>Admin not found\<close>, and error code \<^verbatim>\<open>INVALID_INPUT\<close>. Its only effect is the
  lookup: no table changes and bcrypt is not called.
\<close>

theorem updateAdmin_absent:
  assumes "- idMax (db w) - 1 \<le> n" and "n \<le> idMax (db w)"
    and "\<not> list_ex (\<lambda>r. sql_eq (col r ''AdminID'') (JNum n)) (admins (db w))"
  shows "updateAdmin lib w (JNum n) updateData
           = (Inl \<lparr>statusCode = 404, errorCode = INVALID_INPUT, message = ''Admin not found''\<rparr>,
              w\<lparr>trace := trace w @ [SelectAdminById]\<rparr>)"
proof -
  from assms(3)
  have "filter (\<lambda>r. sql_eq (col r ''AdminID'') (sql_param (JNum n))) (admins (db w)) = []"
    by (simp add: list_ex_filter [symmetric] sql_eq_param)
  moreover from assms(1,2) have "\<not> out_of_range (db w) (JNum n)"
    by simp
  ultimately show ?thesis
    by (simp add: updateAdmin_def updateBody_def Let_def logged_def createNotFoundError_def)
qed

text \<open>On \<open>world0\<close>, which has no admin 9999.\<close>

theorem updateAdmin_absent_witness:
  "updateAdmin marker_bcrypt world0 (JNum 9999) [(''fullName'', JStr ''New Name'')]
           = (Inl \<lparr>statusCode = 404, errorCode = INVALID_INPUT, message = ''Admin not found''\<rparr>,
              world0\<lparr>trace := [SelectAdminById]\<rparr>)"
proof -
  have absent: "\<not> list_ex (\<lambda>r. sql_eq (col r ''AdminID'') (JNum 9999)) (admins (db world0))"
    by code_simp
  have fits: "- idMax (db world0) - 1 \<le> 9999" "9999 \<le> idMax (db world0)"
    by (simp_all add: world0_def store0_def)
  have "trace world0 = []"
    by (simp add: world0_def)
  with updateAdmin_absent [OF fits absent, of marker_bcrypt "[(''fullName'', JStr ''New Name'')]"]
  show ?thesis
    by simp
qed

text \<open>
  An identifier that the column cannot hold is absent from the store as well, but the
  lookup is rejected and the \<^verbatim>\<open>catch\<close> block turns the driver's error into
  \<^verbatim>\<open>DATABASE_ERROR\<close> with status 500. Again no table changes.
\<close>

lemma updateAdmin_out_of_range:
  assumes "out_of_range (db w) AdminID"
  shows "updateAdmin lib w AdminID updateData
           = (Inl \<lparr>statusCode = 500, errorCode = DATABASE_ERROR,
                   message = ''Error updating admin details''\<rparr>,
              w\<lparr>trace := trace w @ [SelectAdminById]\<rparr>)"
  using assms
  by (simp add: updateAdmin_def updateBody_def Let_def logged_def createServerError_def)

text \<open>
  For the absent admin 9999 the error code is \<^verbatim>\<open>INVALID_INPUT\<close>; it is not a code of
  its own for a missing resource. For the absent admin 100000000000000000000, which the controller
  passes on like any positive number, the store rejects the lookup and the failure is
  \<^verbatim>\<open>DATABASE_ERROR\<close> with status 500.
\<close>

theorem updateAdmin_absent_kind_counterexample:
  "fst (updateAdmin marker_bcrypt world0 (JNum 9999) [(''fullName'', JStr ''New Name'')])
     = Inl \<lparr>statusCode = 404, errorCode = INVALID_INPUT, message = ''Admin not found''\<rparr>
   \<and> errorCode \<lparr>statusCode = 404, errorCode = INVALID_INPUT, message = ''Admin not found''\<rparr>
       \<noteq> NOT_FOUND
   \<and> \<not> list_ex (\<lambda>r. sql_eq (col r ''AdminID'') (JNum 100000000000000000000))
           (admins (db world0))
   \<and> fst (updateAdminHandler marker_bcrypt world0 (Some 100000000000000000000)
            [(''fullName'', JStr ''New Name'')])
     = Inl \<lparr>statusCode = 500, errorCode = DATABASE_ERROR,
             message = ''Error updating admin details''\<rparr>"
  by (simp add: updateAdminHandler_def updateAdmin_def updateBody_def Let_def logged_def
        createNotFoundError_def createServerError_def world0_def store0_def sql_eq_def
        sql_param_def col_def)

lemma truthy_param: "truthy v \<Longrightarrow> sql_param v = v"
  by (cases v) (simp_all add: sql_param_def)

lemma updateAdminRows_db:
  "updateAdminRows w sets i = (rows, w') \<Longrightarrow>
     db w' = (db w)\<lparr>admins := map (\<lambda>r. if sql_eq (col r ''AdminID'') i then applySets sets r else r)
                                  (admins (db w))\<rparr>"
  by (auto simp: updateAdminRows_def Let_def logged_def sql_eq_param)

lemma hashPassword_Inr:
  assumes "hashPassword lib w v = (Inr x, w')"
  shows "\<exists>p. v = JStr p \<and> x = JStr (hash lib p 12)"
  using assms by (cases v) (auto simp: hashPassword_def)

lemma hashPassword_now: "now (snd (hashPassword lib w v)) = now w"
  and hashPassword_db: "db (snd (hashPassword lib w v)) = db w"
  by (simp_all add: hashPassword_def logged_def)

lemma updateWrite_db:
  assumes "updateWrite lib w i u = (Inr a, w')"
  shows "\<exists>sets. db w' = (db w)\<lparr>admins :=
             map (\<lambda>r. if sql_eq (col r ''AdminID'') i then applySets sets r else r) (admins (db w))\<rparr>
           \<and> sets = (if truthy (property u ''fullName'') then [(''FullName'', property u ''fullName'')] else [])
                  @ (if truthy (property u ''phone'') then [(''Phone'', property u ''phone'')] else [])
                  @ (if truthy (property u ''password'')
                     then [(''PasswordHash'', JStr (hash lib (case property u ''password'' of JStr p \<Rightarrow> p) 12))]
                     else [])
                  @ [(''UpdatedAt'', JDate (now w))]
           \<and> (truthy (property u ''password'') \<longrightarrow> (\<exists>p. property u ''password'' = JStr p))"
proof (cases "truthy (property u ''password'')")
  case False
  with assms obtain rows where "updateAdminRows w
       ((if truthy (property u ''fullName'') then [(''FullName'', property u ''fullName'')] else [])
        @ (if truthy (property u ''phone'') then [(''Phone'', property u ''phone'')] else [])
        @ [(''UpdatedAt'', JDate (now w))]) i = (rows, w')"
    by (auto simp: updateWrite_def Let_def split: prod.splits list.splits)
  from updateAdminRows_db [OF this] False show ?thesis
    by simp
next
  case True
  obtain x w1 where h: "hashPassword lib w (property u ''password'') = (x, w1)"
    by (cases "hashPassword lib w (property u ''password'')")
  with assms True obtain y where x: "x = Inr y"
    by (cases x) (auto simp: updateWrite_def Let_def)
  from hashPassword_Inr [OF h [unfolded x]]
  obtain p where p: "property u ''password'' = JStr p" "y = JStr (hash lib p 12)"
    by blast
  have n: "now w1 = now w" and d: "db w1 = db w"
    using hashPassword_now [of lib w "property u ''password''"]
      hashPassword_db [of lib w "property u ''password''"] h by simp_all
  from assms True h x p n obtain rows where "updateAdminRows w1
       ((if truthy (property u ''fullName'') then [(''FullName'', property u ''fullName'')] else [])
        @ (if truthy (property u ''phone'') then [(''Phone'', property u ''phone'')] else [])
        @ [(''PasswordHash'', JStr (hash lib p 12))]
        @ [(''UpdatedAt'', JDate (now w))]) i = (rows, w')"
    by (auto simp: updateWrite_def Let_def split: prod.splits list.splits)
  from updateAdminRows_db [OF this] True p d show ?thesis
    by simp
qed

lemma updateAdmin_reaches_write:
  assumes "updateAdmin lib w i u = (Inr a, w')"
  shows "\<exists>w1. updateWrite lib w1 i u = (Inr a, w') \<and> db w1 = db w \<and> now w1 = now w
          \<and> list_ex (\<lambda>r. sql_eq (col r ''AdminID'') i) (admins (db w))"
  using assms
  apply (simp add: updateAdmin_def updateBody_def Let_def list_ex_filter [symmetric] sql_eq_param
              split: prod.splits sum.splits list.splits if_splits)
   apply (auto simp: db_logged now_logged intro!: exI)
  done

text \<open>
  Claim C10. After a successful \<^verbatim>\<open>updateAdmin\<close>, the \<^verbatim>\<open>Admin\<close> table has the same
  rows in the same order, and row by row: a row with another \<^verbatim>\<open>AdminID\<close> is unchanged;
  in a row with the given \<^verbatim>\<open>AdminID\<close> (there is one), \<^verbatim>\<open>FullName\<close> is the patch's
  \<^verbatim>\<open>fullName\<close> if that is supplied and non-empty and is unchanged otherwise, likewise
  \<^verbatim>\<open>Phone\<close>; \<^verbatim>\<open>PasswordHash\<close> is the digest of the patch's \<^verbatim>\<open>password\<close> if that
  is supplied and non-empty and is unchanged otherwise; \<^verbatim>\<open>UpdatedAt\<close> is the current
  time; every other column is unchanged. The other three tables are unchanged.
\<close>

theorem updateAdmin_frame:
  assumes "updateAdmin lib w AdminID updateData = (Inr a, w')"
  shows "list_all2
           (\<lambda>r r'. if sql_eq (col r ''AdminID'') AdminID
                    then col r' ''FullName''
                           = (if truthy (property updateData ''fullName'')
                              then property updateData ''fullName'' else col r ''FullName'')
                       \<and> col r' ''Phone''
                           = (if truthy (property updateData ''phone'')
                              then property updateData ''phone'' else col r ''Phone'')
                       \<and> (if truthy (property updateData ''password'')
                          then \<exists>p. property updateData ''password'' = JStr p
                                 \<and> col r' ''PasswordHash'' = JStr (hash lib p 12)
                          else col r' ''PasswordHash'' = col r ''PasswordHash'')
                       \<and> col r' ''UpdatedAt'' = JDate (now w)
                       \<and> (\<forall>c. c \<notin> {''FullName'', ''Phone'', ''PasswordHash'', ''UpdatedAt''} \<longrightarrow>
                              col r' c = col r c)
                    else r' = r)
           (admins (db w)) (admins (db w'))
       \<and> list_ex (\<lambda>r. sql_eq (col r ''AdminID'') AdminID) (admins (db w))
       \<and> codes (db w') = codes (db w) \<and> roles (db w') = roles (db w)
       \<and> branches (db w') = branches (db w)"
proof -
  from updateAdmin_reaches_write [OF assms] obtain w1
    where wr: "updateWrite lib w1 AdminID updateData = (Inr a, w')"
      and same: "db w1 = db w" "now w1 = now w"
      and found: "list_ex (\<lambda>r. sql_eq (col r ''AdminID'') AdminID) (admins (db w))"
    by blast
  from updateWrite_db [OF wr] same obtain sets
    where d: "db w' = (db w)\<lparr>admins :=
             map (\<lambda>r. if sql_eq (col r ''AdminID'') AdminID then applySets sets r else r)
                 (admins (db w))\<rparr>"
      and sets: "sets = (if truthy (property updateData ''fullName'')
                         then [(''FullName'', property updateData ''fullName'')] else [])
                  @ (if truthy (property updateData ''phone'')
                     then [(''Phone'', property updateData ''phone'')] else [])
                  @ (if truthy (property updateData ''password'')
                     then [(''PasswordHash'',
                            JStr (hash lib (case property updateData ''password'' of JStr p \<Rightarrow> p) 12))]
                     else [])
                  @ [(''UpdatedAt'', JDate (now w))]"
      and pw: "truthy (property updateData ''password'') \<longrightarrow>
                 (\<exists>p. property updateData ''password'' = JStr p)"
    by auto
  have row: "col (applySets sets r) ''FullName''
                 = (if truthy (property updateData ''fullName'')
                    then property updateData ''fullName'' else col r ''FullName'')
           \<and> col (applySets sets r) ''Phone''
                 = (if truthy (property updateData ''phone'')
                    then property updateData ''phone'' else col r ''Phone'')
           \<and> (if truthy (property updateData ''password'')
               then \<exists>p. property updateData ''password'' = JStr p
                      \<and> col (applySets sets r) ''PasswordHash'' = JStr (hash lib p 12)
               else col (applySets sets r) ''PasswordHash'' = col r ''PasswordHash'')
           \<and> col (applySets sets r) ''UpdatedAt'' = JDate (now w)
           \<and> (\<forall>c. c \<notin> {''FullName'', ''Phone'', ''PasswordHash'', ''UpdatedAt''} \<longrightarrow>
                  col (applySets sets r) c = col r c)" for r
    using pw unfolding sets
    by (auto simp: applySets_def col_setcol truthy_param sql_param_def)
  have "list_all2
           (\<lambda>r r'. if sql_eq (col r ''AdminID'') AdminID
                    then col r' ''FullName''
                           = (if truthy (property updateData ''fullName'')
                              then property updateData ''fullName'' else col r ''FullName'')
                       \<and> col r' ''Phone''
                           = (if truthy (property updateData ''phone'')
                              then property updateData ''phone'' else col r ''Phone'')
                       \<and> (if truthy (property updateData ''password'')
                          then \<exists>p. property updateData ''password'' = JStr p
                                 \<and> col r' ''PasswordHash'' = JStr (hash lib p 12)
                          else col r' ''PasswordHash'' = col r ''PasswordHash'')
                       \<and> col r' ''UpdatedAt'' = JDate (now w)
                       \<and> (\<forall>c. c \<notin> {''FullName'', ''Phone'', ''PasswordHash'', ''UpdatedAt''} \<longrightarrow>
                              col r' c = col r c)
                    else r' = r)
           (admins (db w))
           (map (\<lambda>r. if sql_eq (col r ''AdminID'') AdminID then applySets sets r else r)
                (admins (db w)))"
    unfolding list_all2_map2 list_all2_same using row by simp
  with d found show ?thesis
    by simp
qed

text \<open>
  On \<open>world0\<close>: admin 1 changes name and password, giving the right old password.
\<close>

theorem updateAdmin_frame_witness:
  "fst (updateAdmin marker_bcrypt world0 (JNum 1)
          [(''fullName'', JStr ''Asha R. Rao''), (''password'', JStr ''NewPass@456''),
           (''oldPassword'', JStr ''OldPass@123'')])
     = Inr [(''AdminID'', JNum 1), (''StudentID'', JStr ''CS2023007''),
            (''FullName'', JStr ''Asha R. Rao''), (''Email'', JStr ''asha@example.com''),
            (''Phone'', JStr ''+919800000001''), (''RoleID'', JNum 2), (''BranchID'', JNull),
            (''GraduationYear'', JNum 2025), (''CurrentYear'', JNull), (''CreatedAt'', JDate 100),
            (''UpdatedAt'', JDate 1000)]
   \<and> codes (db (snd (updateAdmin marker_bcrypt world0 (JNum 1)
          [(''fullName'', JStr ''Asha R. Rao''), (''password'', JStr ''NewPass@456''),
           (''oldPassword'', JStr ''OldPass@123'')]))) = codes (db world0)
   \<and> length (admins (db (snd (updateAdmin marker_bcrypt world0 (JNum 1)
          [(''fullName'', JStr ''Asha R. Rao''), (''password'', JStr ''NewPass@456''),
           (''oldPassword'', JStr ''OldPass@123'')])))) = length (admins (db world0))"
proof -
  let ?run = "updateAdmin marker_bcrypt world0 (JNum 1)
          [(''fullName'', JStr ''Asha R. Rao''), (''password'', JStr ''NewPass@456''),
           (''oldPassword'', JStr ''OldPass@123'')]"
  let ?a = "[(''AdminID'', JNum 1), (''StudentID'', JStr ''CS2023007''),
            (''FullName'', JStr ''Asha R. Rao''), (''Email'', JStr ''asha@example.com''),
            (''Phone'', JStr ''+919800000001''), (''RoleID'', JNum 2), (''BranchID'', JNull),
            (''GraduationYear'', JNum 2025), (''CurrentYear'', JNull), (''CreatedAt'', JDate 100),
            (''UpdatedAt'', JDate 1000)]"
  have ok: "fst ?run = Inr ?a"
    by code_simp
  then have "?run = (Inr ?a, snd ?run)"
    by (metis prod.collapse)
  from updateAdmin_frame [OF this] ok show ?thesis
    by (auto dest: list_all2_lengthD)
qed

section \<open>A new password without the old one\<close>

lemma property_present_nonempty: "present (property body k) \<Longrightarrow> body \<noteq> []"
  by (auto simp: present_def property_def)

lemma validateAdminUpdateInput_no_oldPassword:
  assumes "present (property body ''password'')"
    and "\<not> truthy (property body ''oldPassword'')"
  shows "validateAdminUpdateInput vs body =
     (if present (property body ''fullName'')
         \<and> (\<exists>x. validateFullName vs (property body ''fullName'') = Inl x)
      then Inl (asValidationError (projl (validateFullName vs (property body ''fullName''))))
      else if present (property body ''phone'')
         \<and> (\<exists>x. validatePhone vs (property body ''phone'') = Inl x)
      then Inl (asValidationError (projl (validatePhone vs (property body ''phone''))))
      else Inl (createValidationError MISSING_FIELD
                  ''Old password is required to set new password''))"
  using assms
  by (auto simp: validateAdminUpdateInput_def validateUpdateBody_def Let_def
        createValidationError_def split: sum.splits)

text \<open>
  Claim C8, as the code has it. Take a request to the update route whose body has a
  \<^verbatim>\<open>password\<close> (neither undefined nor null) and no \<^verbatim>\<open>oldPassword\<close> (undefined,
  null or empty). It always fails before the controller and the service run, so nothing is
  hashed and the world, the stored hash with it, is the one the request found. The error
  is that of the first check that fails, in the order of the route: authentication,
  authorisation, validation of \<^verbatim>\<open>fullName\<close> if the body has one, validation of
  \<^verbatim>\<open>phone\<close> if the body has one; when all of these pass it is \<^verbatim>\<open>MISSING_FIELD\<close>.
\<close>

theorem password_without_oldPassword:
  assumes "present (property (req_body req) ''password'')"
    and "\<not> truthy (property (req_body req) ''oldPassword'')"
  shows "(authenticateAdmin gs w req = Inl e \<longrightarrow>
            updateAdminRoute gs vs lib w req = (Inl e, w))
       \<and> (authenticateAdmin gs w req = Inr admin
            \<and> authorizeUpdateAdmin gs w req admin = Some e \<longrightarrow>
            updateAdminRoute gs vs lib w req = (Inl e, w))
       \<and> (authenticateAdmin gs w req = Inr admin
            \<and> authorizeUpdateAdmin gs w req admin = None
            \<and> present (property (req_body req) ''fullName'')
            \<and> validateFullName vs (property (req_body req) ''fullName'') = Inl x \<longrightarrow>
            updateAdminRoute gs vs lib w req = (Inl (asValidationError x), w))
       \<and> (authenticateAdmin gs w req = Inr admin
            \<and> authorizeUpdateAdmin gs w req admin = None
            \<and> (present (property (req_body req) ''fullName'') \<longrightarrow>
                  (\<exists>v. validateFullName vs (property (req_body req) ''fullName'') = Inr v))
            \<and> present (property (req_body req) ''phone'')
            \<and> validatePhone vs (property (req_body req) ''phone'') = Inl x \<longrightarrow>
            updateAdminRoute gs vs lib w req = (Inl (asValidationError x), w))
       \<and> (authenticateAdmin gs w req = Inr admin
            \<and> authorizeUpdateAdmin gs w req admin = None
            \<and> (present (property (req_body req) ''fullName'') \<longrightarrow>
                  (\<exists>v. validateFullName vs (property (req_body req) ''fullName'') = Inr v))
            \<and> (present (property (req_body req) ''phone'') \<longrightarrow>
                  (\<exists>v. validatePhone vs (property (req_body req) ''phone'') = Inr v)) \<longrightarrow>
            updateAdminRoute gs vs lib w req
              = (Inl \<lparr>statusCode = 400, errorCode = MISSING_FIELD,
                      message = ''Old password is required to set new password''\<rparr>, w))
       \<and> (\<exists>err. updateAdminRoute gs vs lib w req = (Inl err, w))"
proof -
  have ne: "req_body req \<noteq> []"
    using assms(1) by (rule property_present_nonempty)
  note v = validateAdminUpdateInput_no_oldPassword [OF assms, of vs]
  have a: "authenticateAdmin gs w req = Inl e \<longrightarrow>
            updateAdminRoute gs vs lib w req = (Inl e, w)"
    using ne by (simp add: updateAdminRoute_def sanitizeAdminInput_def)
  have b: "authenticateAdmin gs w req = Inr admin
            \<and> authorizeUpdateAdmin gs w req admin = Some e \<longrightarrow>
            updateAdminRoute gs vs lib w req = (Inl e, w)"
    using ne by (simp add: updateAdminRoute_def sanitizeAdminInput_def)
  have through: "updateAdminRoute gs vs lib w req
                   = (Inl (projl (validateAdminUpdateInput vs (req_body req))), w)"
    if "authenticateAdmin gs w req = Inr admin" "authorizeUpdateAdmin gs w req admin = None"
    using that ne v
    by (auto simp: updateAdminRoute_def sanitizeAdminInput_def split: if_splits)
  have c: "authenticateAdmin gs w req = Inr admin
            \<and> authorizeUpdateAdmin gs w req admin = None
            \<and> present (property (req_body req) ''fullName'')
            \<and> validateFullName vs (property (req_body req) ''fullName'') = Inl x \<longrightarrow>
            updateAdminRoute gs vs lib w req = (Inl (asValidationError x), w)"
    using through v by auto
  have d: "authenticateAdmin gs w req = Inr admin
            \<and> authorizeUpdateAdmin gs w req admin = None
            \<and> (present (property (req_body req) ''fullName'') \<longrightarrow>
                  (\<exists>v. validateFullName vs (property (req_body req) ''fullName'') = Inr v))
            \<and> present (property (req_body req) ''phone'')
            \<and> validatePhone vs (property (req_body req) ''phone'') = Inl x \<longrightarrow>
            updateAdminRoute gs vs lib w req = (Inl (asValidationError x), w)"
    using through v by auto
  have m: "authenticateAdmin gs w req = Inr admin
            \<and> authorizeUpdateAdmin gs w req admin = None
            \<and> (present (property (req_body req) ''fullName'') \<longrightarrow>
                  (\<exists>v. validateFullName vs (property (req_body req) ''fullName'') = Inr v))
            \<and> (present (property (req_body req) ''phone'') \<longrightarrow>
                  (\<exists>v. validatePhone vs (property (req_body req) ''phone'') = Inr v)) \<longrightarrow>
            updateAdminRoute gs vs lib w req
              = (Inl \<lparr>statusCode = 400, errorCode = MISSING_FIELD,
                      message = ''Old password is required to set new password''\<rparr>, w)"
    using through v by (auto simp: createValidationError_def)
  have f: "\<exists>err. updateAdminRoute gs vs lib w req = (Inl err, w)"
  proof (cases "authenticateAdmin gs w req")
    case (Inl err)
    with ne show ?thesis
      by (simp add: updateAdminRoute_def sanitizeAdminInput_def)
  next
    case (Inr adm)
    show ?thesis
    proof (cases "authorizeUpdateAdmin gs w req adm")
      case None
      with Inr ne v show ?thesis
        by (auto simp: updateAdminRoute_def sanitizeAdminInput_def split: if_splits)
    next
      case (Some err)
      with Inr ne show ?thesis
        by (simp add: updateAdminRoute_def sanitizeAdminInput_def)
    qed
  qed
  from a b c d m f show ?thesis
    by blast
qed

text \<open>
  On \<open>world0\<close>, for a request that passes the guards, with a well-formed phone number
  next to the new password.
\<close>

theorem password_without_oldPassword_witness:
  "updateAdminRoute guards0 validators0 marker_bcrypt world0
       \<lparr>req_headers = [(''authorization'', JStr ''Bearer token'')], req_adminId = Some 1,
        req_body = [(''phone'', JStr ''+919876543210''), (''password'', JStr ''NewPass@456'')]\<rparr>
     = (Inl \<lparr>statusCode = 400, errorCode = MISSING_FIELD,
             message = ''Old password is required to set new password''\<rparr>, world0)"
proof -
  let ?req = "\<lparr>req_headers = [(''authorization'', JStr ''Bearer token'')], req_adminId = Some 1,
        req_body = [(''phone'', JStr ''+919876543210''), (''password'', JStr ''NewPass@456'')]\<rparr>"
  have pw: "present (property (req_body ?req) ''password'')"
    and old: "\<not> truthy (property (req_body ?req) ''oldPassword'')"
    and name: "\<not> present (property (req_body ?req) ''fullName'')"
    by (simp_all add: property_def present_def)
  have phone: "validatePhone validators0 (property (req_body ?req) ''phone'')
                 = Inr (JStr ''+919876543210'')"
    by (simp add: validators0_def validatePhone_spec_def matches_PHONE_def is_digit_def property_def)
  have pass: "authenticateAdmin guards0 world0 ?req = Inr [(''adminID'', JNum 1)]"
    "authorizeUpdateAdmin guards0 world0 ?req [(''adminID'', JNum 1)] = None"
    by (simp_all add: guards0_def)
  from password_without_oldPassword [OF pw old, where gs = guards0 and w = world0
         and admin = "[(''adminID'', JNum 1)]" and vs = validators0 and lib = marker_bcrypt]
    name phone pass
  show ?thesis
    by simp
qed

text \<open>
  With a malformed phone number next to the new password, in a request that passes the
  guards, the phone validator throws first and the request fails with
  \<^verbatim>\<open>INVALID_PHONE\<close>, not \<^verbatim>\<open>MISSING_FIELD\<close>.
\<close>

theorem password_without_oldPassword_counterexample:
  "updateAdminRoute guards0 validators0 marker_bcrypt world0
       \<lparr>req_headers = [(''authorization'', JStr ''Bearer token'')], req_adminId = Some 1,
        req_body = [(''phone'', JStr ''not-a-phone''), (''password'', JStr ''NewPass@456'')]\<rparr>
     = (Inl \<lparr>statusCode = 400, errorCode = INVALID_PHONE,
             message = ''Invalid phone number format''\<rparr>, world0)
   \<and> INVALID_PHONE \<noteq> MISSING_FIELD"
  by (simp add: updateAdminRoute_def sanitizeAdminInput_def validateAdminUpdateInput_def
        validateUpdateBody_def validators0_def guards0_def validatePhone_spec_def
        matches_PHONE_def property_def present_def createValidationError_def Let_def)

section \<open>Token verification\<close>

text \<open>
  Claim C9, as the code has it. \<^verbatim>\<open>verifyJWT\<close> fails for every token when no secret is
  configured (the variable is unset or empty). With a secret, it fails for every string
  that is not a token, and for a token whenever the signature does not verify, the token
  has expired, or audience or issuer differ from \<^verbatim>\<open>admin-api\<close> and
  \<^verbatim>\<open>gfg-event-management\<close>; it returns the decoded token otherwise. Every one of these
  failures is built by \<^verbatim>\<open>createServerError\<close>: status 500 and error code
  \<^verbatim>\<open>INTERNAL_ERROR\<close>, with the library's message after
  \<^verbatim>\<open>JWT verification failed:\<close>, or with \<^verbatim>\<open>JWT_SECRET not configured\<close>. There is no
  other failure.
\<close>

theorem verifyJWT_outcomes:
  "(JWT_SECRET = None \<or> JWT_SECRET = Some [] \<longrightarrow>
      verifyJWT JWT_SECRET clock t
        = Inl \<lparr>statusCode = 500, errorCode = INTERNAL_ERROR,
               message = ''JWT_SECRET not configured''\<rparr>)
   \<and> (secret \<noteq> [] \<longrightarrow>
      (\<exists>m. verifyJWT (Some secret) clock (NotAToken s)
             = Inl \<lparr>statusCode = 500, errorCode = INTERNAL_ERROR,
                    message = ''JWT verification failed: '' @ m\<rparr>))
   \<and> (secret \<noteq> [] \<and> (signedWith k \<noteq> secret \<or> exp k \<le> clock \<or> aud k \<noteq> ''admin-api''
                      \<or> iss k \<noteq> ''gfg-event-management'') \<longrightarrow>
      (\<exists>m. verifyJWT (Some secret) clock (SignedToken k)
             = Inl \<lparr>statusCode = 500, errorCode = INTERNAL_ERROR,
                    message = ''JWT verification failed: '' @ m\<rparr>))
   \<and> (secret \<noteq> [] \<and> signedWith k = secret \<and> clock < exp k \<and> aud k = ''admin-api''
        \<and> iss k = ''gfg-event-management'' \<longrightarrow>
      verifyJWT (Some secret) clock (SignedToken k) = Inr k)
   \<and> (verifyJWT JWT_SECRET clock t = Inl e \<longrightarrow> statusCode e = 500 \<and> errorCode e = INTERNAL_ERROR)"
proof (intro conjI impI)
  assume "JWT_SECRET = None \<or> JWT_SECRET = Some []"
  then show "verifyJWT JWT_SECRET clock t
        = Inl \<lparr>statusCode = 500, errorCode = INTERNAL_ERROR,
               message = ''JWT_SECRET not configured''\<rparr>"
    by (auto simp: verifyJWT_def createServerError_def)
next
  assume "secret \<noteq> []"
  then show "\<exists>m. verifyJWT (Some secret) clock (NotAToken s)
             = Inl \<lparr>statusCode = 500, errorCode = INTERNAL_ERROR,
                    message = ''JWT verification failed: '' @ m\<rparr>"
    by (simp add: verifyJWT_def jwt_verify_def createServerError_def)
next
  assume "secret \<noteq> [] \<and> (signedWith k \<noteq> secret \<or> exp k \<le> clock \<or> aud k \<noteq> ''admin-api''
                      \<or> iss k \<noteq> ''gfg-event-management'')"
  then show "\<exists>m. verifyJWT (Some secret) clock (SignedToken k)
             = Inl \<lparr>statusCode = 500, errorCode = INTERNAL_ERROR,
                    message = ''JWT verification failed: '' @ m\<rparr>"
    by (auto simp: verifyJWT_def jwt_verify_def createServerError_def)
next
  assume "secret \<noteq> [] \<and> signedWith k = secret \<and> clock < exp k \<and> aud k = ''admin-api''
        \<and> iss k = ''gfg-event-management''"
  then show "verifyJWT (Some secret) clock (SignedToken k) = Inr k"
    by (simp add: verifyJWT_def jwt_verify_def)
next
  assume "verifyJWT JWT_SECRET clock t = Inl e"
  then show "statusCode e = 500" and "errorCode e = INTERNAL_ERROR"
    by (auto simp: verifyJWT_def createServerError_def split: option.splits if_splits sum.splits)
qed

text \<open>
  A valid token is decoded; the same token is refused at its expiry time, and when no
  secret is configured.
\<close>

theorem verifyJWT_outcomes_witness:
  "verifyJWT (Some ''s3cret'') 1000 (SignedToken token0) = Inr token0
   \<and> (\<exists>m. verifyJWT (Some ''s3cret'') 90000 (SignedToken token0)
            = Inl \<lparr>statusCode = 500, errorCode = INTERNAL_ERROR,
                   message = ''JWT verification failed: '' @ m\<rparr>)
   \<and> verifyJWT None 1000 (SignedToken token0)
        = Inl \<lparr>statusCode = 500, errorCode = INTERNAL_ERROR,
               message = ''JWT_SECRET not configured''\<rparr>"
proof -
  have good: "''s3cret'' \<noteq> [] \<and> signedWith token0 = ''s3cret'' \<and> 1000 < exp token0
      \<and> aud token0 = ''admin-api'' \<and> iss token0 = ''gfg-event-management''"
    by (simp add: token0_def)
  have late: "''s3cret'' \<noteq> [] \<and> (signedWith token0 \<noteq> ''s3cret'' \<or> exp token0 \<le> 90000
      \<or> aud token0 \<noteq> ''admin-api'' \<or> iss token0 \<noteq> ''gfg-event-management'')"
    by (simp add: token0_def)
  from verifyJWT_outcomes [where secret = "''s3cret''" and k = token0 and clock = 1000] good
  have a: "verifyJWT (Some ''s3cret'') 1000 (SignedToken token0) = Inr token0"
    by blast
  from verifyJWT_outcomes [where secret = "''s3cret''" and k = token0 and clock = 90000] late
  have b: "\<exists>m. verifyJWT (Some ''s3cret'') 90000 (SignedToken token0)
            = Inl \<lparr>statusCode = 500, errorCode = INTERNAL_ERROR,
                   message = ''JWT verification failed: '' @ m\<rparr>"
    by blast
  from verifyJWT_outcomes [where JWT_SECRET = None and clock = 1000 and t = "SignedToken token0"]
  have c: "verifyJWT None 1000 (SignedToken token0)
        = Inl \<lparr>statusCode = 500, errorCode = INTERNAL_ERROR,
               message = ''JWT_SECRET not configured''\<rparr>"
    by blast
  from a b c show ?thesis
    by simp
qed

text \<open>
  A forged signature, an expired token and a foreign audience each give
  \<^verbatim>\<open>INTERNAL_ERROR\<close> with status 500; none gives \<^verbatim>\<open>UNAUTHORIZED\<close>.
\<close>

theorem verifyJWT_unauthorized_counterexample:
  "verifyJWT (Some ''s3cret'') 1000 (SignedToken (token0\<lparr>signedWith := ''forged''\<rparr>))
     = Inl \<lparr>statusCode = 500, errorCode = INTERNAL_ERROR,
            message = ''JWT verification failed: invalid signature''\<rparr>
   \<and> verifyJWT (Some ''s3cret'') 90000 (SignedToken token0)
     = Inl \<lparr>statusCode = 500, errorCode = INTERNAL_ERROR,
            message = ''JWT verification failed: jwt expired''\<rparr>
   \<and> verifyJWT (Some ''s3cret'') 1000 (SignedToken (token0\<lparr>aud := ''user-api''\<rparr>))
     = Inl \<lparr>statusCode = 500, errorCode = INTERNAL_ERROR,
            message = ''JWT verification failed: jwt audience invalid. expected: admin-api''\<rparr>
   \<and> INTERNAL_ERROR \<noteq> UNAUTHORIZED"
  by (simp add: verifyJWT_def jwt_verify_def createServerError_def token0_def)

end
